theory Spec2Isabelle
  imports Complex_Main
begin

section \<open>The ingestion function \<open>ingest-eval\<close> (src/unnamed/part_004)\<close>

text \<open>
  The function is one HTTP handler, \<open>Deno.serve(async (req) => ...)\<close>. It talks to three
  collaborators through the Supabase client: the identity provider (\<open>auth.getUser\<close>), the
  table \<open>eval_configs\<close> and the table \<open>evaluations\<close>; it also reads the clock and
  \<open>Math.random()\<close>. The model below passes the store explicitly (the handler takes the
  tables and returns them), takes everything the outside world decides during one
  invocation as the record \<open>io\<close>, and returns the list of collaborator calls the handler
  made, in order, next to the response.
\<close>

subsection \<open>JSON values and the JavaScript operations applied to them\<close>

text \<open>
  \<open>req.json()\<close> yields any JSON value: the annotation \<open>payload: EvalPayload\<close> is erased at
  run time. The handler computes with none of the payload's numbers, it tests them for
  zero and passes them on: a number is kept as the decimal value \<open>JSON.stringify\<close> sends
  to the store (\<open>rat\<close>), which is 0 exactly when the parsed double is. An object is the
  list of its members, one pair for each key as in a parsed object, read with \<open>map_of\<close>.
\<close>

datatype json =
    JNull
  | JBool bool
  | JNum rat
  | JStr string
  | JArr "json list"
  | JObj "(string \<times> json) list"

text \<open>What a \<open>throw\<close> carries: an \<open>Error\<close> instance with its message, or anything else.\<close>

datatype thrown = JsError string | NonError

text \<open>
  \<open>payload.k\<close>: a \<open>TypeError\<close> on \<open>null\<close>, the member (or \<open>undefined\<close>, here \<open>None\<close>) on an
  object, and \<open>undefined\<close> on a boolean, number, string or array (none of the seven keys
  the handler reads is a property of those).
\<close>

fun read_prop :: "json \<Rightarrow> string \<Rightarrow> thrown + json option" where
  "read_prop JNull k =
     Inl (JsError (''Cannot read properties of null (reading '' @ [CHR 0x27] @ k @ [CHR 0x27] @ '')''))"
| "read_prop (JObj kvs) k = Inr (map_of kvs k)"
| "read_prop _ k = Inr None"

text \<open>JavaScript truthiness of a value that may be \<open>undefined\<close>.\<close>

fun truthy :: "json option \<Rightarrow> bool" where
  "truthy None = False"
| "truthy (Some JNull) = False"
| "truthy (Some (JBool b)) = b"
| "truthy (Some (JNum q)) = (q \<noteq> 0)"
| "truthy (Some (JStr s)) = (s \<noteq> [])"
| "truthy (Some (JArr xs)) = True"
| "truthy (Some (JObj kvs)) = True"

text \<open>\<open>v || d\<close>.\<close>

definition js_or :: "json option \<Rightarrow> json \<Rightarrow> json" where
  "js_or v d = (case v of None \<Rightarrow> d | Some x \<Rightarrow> if truthy (Some x) then x else d)"

text \<open>\<open>s.replace(pat, rep)\<close> with a string pattern: the first occurrence only.\<close>

fun replace_first :: "string \<Rightarrow> string \<Rightarrow> string \<Rightarrow> string" where
  "replace_first pat rep [] = (if pat = [] then rep else [])"
| "replace_first pat rep (c # cs) =
     (if take (length pat) (c # cs) = pat then rep @ drop (length pat) (c # cs)
      else c # replace_first pat rep cs)"

text \<open>
  Numbers computed by the handler itself are IEEE 754 doubles. \<open>Math.random()\<close> returns a
  double in \<open>[0, 1)\<close>: every such double is \<open>mantissa / 2 ^ scale\<close> with a mantissa below
  \<open>2 ^ 53\<close> and a scale of at most 1074.
\<close>

record unit_double =
  mantissa :: nat
  scale :: nat

definition random_value :: "unit_double \<Rightarrow> rat" where
  "random_value x = of_nat (mantissa x) / 2 ^ scale x"

text \<open>The number of binary digits of a natural number.\<close>

fun bit_length :: "nat \<Rightarrow> nat" where
  "bit_length n = (if n = 0 then 0 else bit_length (n div 2) + 1)"

declare bit_length.simps [simp del]

text \<open>\<open>p / 2 ^ s\<close> rounded to the nearest integer, a tie going to the even one.\<close>

definition round_shift :: "nat \<Rightarrow> nat \<Rightarrow> nat" where
  "round_shift p s =
     (let q = p div 2 ^ s; r = p mod 2 ^ s
      in if 2 ^ s < 2 * r \<or> (2 * r = 2 ^ s \<and> odd q) then q + 1 else q)"

text \<open>
  \<open>x * 100\<close> in double arithmetic: the exact product \<open>100 * mantissa / 2 ^ scale\<close> keeps its
  53 leading binary digits, rounded to nearest, ties to even (the subtraction on \<open>nat\<close>
  gives 0 when the product has at most 53 digits, and nothing is dropped). The product
  of a double below 1 by 100 neither overflows nor falls below the smallest double.
\<close>

definition times100 :: "unit_double \<Rightarrow> rat" where
  "times100 x =
     (let p = 100 * mantissa x; s = bit_length p - 53
      in of_nat (round_shift p s * 2 ^ s) / 2 ^ scale x)"

text \<open>Sequencing of steps that may throw or fail.\<close>

definition bind_err :: "'e + 'a \<Rightarrow> ('a \<Rightarrow> 'e + 'b) \<Rightarrow> 'e + 'b" where
  "bind_err r f = (case r of Inl e \<Rightarrow> Inl e | Inr x \<Rightarrow> f x)"

subsection \<open>The store (supabase/migrations/20251016083710_....sql)\<close>

text \<open>Instants are integers on one scale (milliseconds since the epoch).\<close>

type_synonym timestamp = int

record eval_config =
  cfg_id :: string
  cfg_user_id :: string
  run_policy :: string
  sample_rate_pct :: int
  obfuscate_pii :: bool
  max_eval_per_day :: int
  cfg_created_at :: timestamp
  cfg_updated_at :: timestamp

record evaluation =
  eval_id :: string
  user_id :: string
  interaction_id :: string
  prompt :: string
  response :: string
  score :: "rat option"
  latency_ms :: int
  flags :: "string list option"
  pii_tokens_redacted :: "int option"
  created_at :: timestamp

record db =
  eval_configs :: "eval_config list"
  evaluations :: "evaluation list"

datatype pg_error = PgError (message: string)

text \<open>The object handed to \<open>.insert(...)\<close>; a member that is \<open>undefined\<close> is not sent.\<close>

record eval_insert =
  ins_user_id :: string
  ins_interaction_id :: "json option"
  ins_prompt :: "json option"
  ins_response :: "json option"
  ins_score :: "json option"
  ins_latency_ms :: "json option"
  ins_flags :: "json option"
  ins_pii_tokens_redacted :: "json option"

text \<open>The identity provider's answer to \<open>auth.getUser(token)\<close>.\<close>

datatype auth_user = AuthUser (id_of: string)

record auth_response =
  user :: "auth_user option"
  auth_error :: "string option"

text \<open>
  What the outside world decides during one invocation: the identity provider, the value
  of \<open>Math.random()\<close>, the clock of the function and its time zone, the failures of the
  three store requests (a request that fails answers with \<open>error\<close> set and no data), and
  the two column defaults the store computes on insert, \<open>gen_random_uuid()\<close> and \<open>now()\<close>.
\<close>

record io =
  getUser :: "string \<Rightarrow> auth_response"
  config_read_error :: "pg_error option"
  random :: unit_double
  date_now :: timestamp
  tz_offset :: int
  count_read_error :: "pg_error option"
  insert_io_error :: "pg_error option"
  gen_random_uuid :: string
  db_now :: timestamp

text \<open>
  \<open>.from("eval_configs").select("*").eq("user_id", uid).single()\<close>: the row when exactly
  one matches, otherwise no data (and an error the handler does not look at).
\<close>

definition select_config_single :: "io \<Rightarrow> db \<Rightarrow> string \<Rightarrow> eval_config option" where
  "select_config_single io d uid =
     (case config_read_error io of
        Some e \<Rightarrow> None
      | None \<Rightarrow>
         (case filter (\<lambda>c. cfg_user_id c = uid) (eval_configs d) of
            [c] \<Rightarrow> Some c
          | _ \<Rightarrow> None))"

text \<open>
  \<open>.select("*", {count: "exact", head: true}).eq("user_id", uid).gte("created_at", since)\<close>:
  the number of rows that pass both filters, or \<open>null\<close> when the request fails.
\<close>

definition matching_rows :: "evaluation list \<Rightarrow> string \<Rightarrow> timestamp \<Rightarrow> evaluation list" where
  "matching_rows rows uid since = filter (\<lambda>r. user_id r = uid \<and> since \<le> created_at r) rows"

definition count_evaluations :: "io \<Rightarrow> db \<Rightarrow> string \<Rightarrow> timestamp \<Rightarrow> int option" where
  "count_evaluations io d uid since =
     (case count_read_error io of
        Some e \<Rightarrow> None
      | None \<Rightarrow> Some (int (length (matching_rows (evaluations d) uid since))))"

text \<open>
  The columns of \<open>evaluations\<close>. A JSON value of the column's own kind is stored; a value
  of another kind is refused (the coercions the store may apply to foreign kinds are not
  modelled). Constraints and defaults are those of the migration.
\<close>

fun text_not_null :: "string \<Rightarrow> json option \<Rightarrow> pg_error + string" where
  "text_not_null col (Some (JStr s)) = Inr s"
| "text_not_null col None = Inl (PgError (''null value in column '' @ col))"
| "text_not_null col (Some JNull) = Inl (PgError (''null value in column '' @ col))"
| "text_not_null col (Some v) = Inl (PgError (''invalid input for column '' @ col))"

definition int4_value :: "string \<Rightarrow> rat \<Rightarrow> pg_error + int" where
  "int4_value col q =
     (if of_int \<lfloor>q\<rfloor> \<noteq> q then Inl (PgError (''invalid input for column '' @ col))
      else if \<lfloor>q\<rfloor> < - 2147483648 \<or> 2147483647 < \<lfloor>q\<rfloor> then Inl (PgError (''integer out of range''))
      else Inr \<lfloor>q\<rfloor>)"

text \<open>\<open>latency_ms INTEGER NOT NULL CHECK (latency_ms >= 0)\<close>\<close>

fun latency_ms_col :: "json option \<Rightarrow> pg_error + int" where
  "latency_ms_col (Some (JNum q)) =
     bind_err (int4_value ''latency_ms'' q)
       (\<lambda>n. if 0 \<le> n then Inr n else Inl (PgError ''violates check constraint evaluations_latency_ms_check''))"
| "latency_ms_col None = Inl (PgError ''null value in column latency_ms'')"
| "latency_ms_col (Some JNull) = Inl (PgError ''null value in column latency_ms'')"
| "latency_ms_col (Some v) = Inl (PgError ''invalid input for column latency_ms'')"

text \<open>\<open>pii_tokens_redacted INTEGER DEFAULT 0\<close>\<close>

fun pii_tokens_redacted_col :: "json option \<Rightarrow> pg_error + int option" where
  "pii_tokens_redacted_col None = Inr (Some 0)"
| "pii_tokens_redacted_col (Some JNull) = Inr None"
| "pii_tokens_redacted_col (Some (JNum q)) =
     bind_err (int4_value ''pii_tokens_redacted'' q) (\<lambda>n. Inr (Some n))"
| "pii_tokens_redacted_col (Some v) = Inl (PgError ''invalid input for column pii_tokens_redacted'')"

text \<open>\<open>flags TEXT[] DEFAULT '{}'\<close>\<close>

fun text_elem :: "json \<Rightarrow> string option" where
  "text_elem (JStr s) = Some s"
| "text_elem v = None"

fun text_elems :: "json list \<Rightarrow> string list option" where
  "text_elems [] = Some []"
| "text_elems (v # vs) =
     (case text_elem v of
        None \<Rightarrow> None
      | Some s \<Rightarrow> (case text_elems vs of None \<Rightarrow> None | Some ss \<Rightarrow> Some (s # ss)))"

fun flags_col :: "json option \<Rightarrow> pg_error + string list option" where
  "flags_col None = Inr (Some [])"
| "flags_col (Some JNull) = Inr None"
| "flags_col (Some (JArr vs)) =
     (case text_elems vs of
        None \<Rightarrow> Inl (PgError ''invalid input for column flags'')
      | Some ss \<Rightarrow> Inr (Some ss))"
| "flags_col (Some v) = Inl (PgError ''invalid input for column flags'')"

text \<open>
  \<open>score NUMERIC(3, 2) CHECK (score >= 0 AND score <= 1)\<close>: the value is rounded to two
  decimals (half away from zero), must then have one digit before the point, and is then
  checked against the constraint. No default: an absent score is \<open>NULL\<close>.
\<close>

definition round2 :: "rat \<Rightarrow> rat" where
  "round2 q =
     (if 0 \<le> q then of_int \<lfloor>q * 100 + 1 / 2\<rfloor> / 100
      else - (of_int \<lfloor>- q * 100 + 1 / 2\<rfloor> / 100))"

fun score_col :: "json option \<Rightarrow> pg_error + rat option" where
  "score_col None = Inr None"
| "score_col (Some JNull) = Inr None"
| "score_col (Some (JNum q)) =
     (let s = round2 q in
      if 10 \<le> \<bar>s\<bar> then Inl (PgError ''numeric field overflow'')
      else if 0 \<le> s \<and> s \<le> 1 then Inr (Some s)
      else Inl (PgError ''violates check constraint evaluations_score_check''))"
| "score_col (Some v) = Inl (PgError ''invalid input for column score'')"

text \<open>
  \<open>.from("evaluations").insert(obj).select().single()\<close>: the request may fail as a whole;
  otherwise every column is computed, \<open>id\<close> and \<open>created_at\<close> take their defaults, the
  primary key must be new, and the row is appended and returned. (The foreign key of
  \<open>user_id\<close> is not modelled: the identifier comes from the identity provider.)
\<close>

definition new_row :: "io \<Rightarrow> eval_insert \<Rightarrow> pg_error + evaluation" where
  "new_row io obj =
     bind_err (text_not_null ''interaction_id'' (ins_interaction_id obj)) (\<lambda>i.
     bind_err (text_not_null ''prompt'' (ins_prompt obj)) (\<lambda>p.
     bind_err (text_not_null ''response'' (ins_response obj)) (\<lambda>r.
     bind_err (score_col (ins_score obj)) (\<lambda>s.
     bind_err (latency_ms_col (ins_latency_ms obj)) (\<lambda>l.
     bind_err (flags_col (ins_flags obj)) (\<lambda>f.
     bind_err (pii_tokens_redacted_col (ins_pii_tokens_redacted obj)) (\<lambda>n.
       Inr \<lparr> eval_id = gen_random_uuid io, user_id = ins_user_id obj, interaction_id = i,
             prompt = p, response = r, score = s, latency_ms = l, flags = f,
             pii_tokens_redacted = n, created_at = db_now io \<rparr>)))))))"

definition insert_evaluation :: "io \<Rightarrow> db \<Rightarrow> eval_insert \<Rightarrow> (pg_error + evaluation) \<times> db" where
  "insert_evaluation io d obj =
     (case insert_io_error io of
        Some e \<Rightarrow> (Inl e, d)
      | None \<Rightarrow>
         (case new_row io obj of
            Inl e \<Rightarrow> (Inl e, d)
          | Inr row \<Rightarrow>
             if eval_id row \<in> set (map eval_id (evaluations d))
             then (Inl (PgError ''duplicate key value violates unique constraint evaluations_pkey''), d)
             else (Inr row, d\<lparr>evaluations := evaluations d @ [row]\<rparr>)))"

subsection \<open>Requests, responses and the calls the handler makes\<close>

record request =
  req_method :: string
  authorization :: "string option"
  json_body :: "string + json"

text \<open>
  \<open>authorization\<close> is \<open>req.headers.get("Authorization")\<close> (\<open>None\<close> for \<open>null\<close>);
  \<open>json_body\<close> is what \<open>await req.json()\<close> does when it is called: \<open>Inl msg\<close> when it throws
  a \<open>SyntaxError\<close> with that message, \<open>Inr v\<close> when the body parses to \<open>v\<close>.

  The three shapes given to \<open>JSON.stringify\<close>: \<open>{error: s}\<close>, \<open>{message: s}\<close> and
  \<open>{success: true, evaluation: row}\<close>.
\<close>

datatype resp_body = ErrorBody string | MessageBody string | SuccessBody evaluation

record http_response =
  status :: nat
  headers :: "(string \<times> string) list"
  body :: "resp_body option"

datatype call =
    GetUser string
  | SelectConfig string
  | MathRandom
  | NewDate
  | CountEvaluations string timestamp
  | ReqJson
  | InsertEvaluation eval_insert

definition corsHeaders :: "(string \<times> string) list" where
  "corsHeaders =
     [(''Access-Control-Allow-Origin'', ''*''),
      (''Access-Control-Allow-Headers'', ''authorization, x-client-info, apikey, content-type'')]"

definition json_response :: "nat \<Rightarrow> resp_body \<Rightarrow> http_response" where
  "json_response st b =
     \<lparr> status = st, headers = corsHeaders @ [(''Content-Type'', ''application/json'')],
       body = Some b \<rparr>"

subsection \<open>The handler, gate by gate\<close>

text \<open>
  Every stage returns what the \<open>try\<close> block produced (a response, or the value thrown),
  the store, and the calls made so far.
\<close>

type_synonym outcome = "(thrown + http_response) \<times> db \<times> call list"

text \<open>Lines 96-105: the members are evaluated in the order written.\<close>

definition build_insert :: "auth_user \<Rightarrow> json \<Rightarrow> thrown + eval_insert" where
  "build_insert u payload =
     bind_err (read_prop payload ''interaction_id'') (\<lambda>i.
     bind_err (read_prop payload ''prompt'') (\<lambda>p.
     bind_err (read_prop payload ''response'') (\<lambda>r.
     bind_err (read_prop payload ''score'') (\<lambda>s.
     bind_err (read_prop payload ''latency_ms'') (\<lambda>l.
     bind_err (read_prop payload ''flags'') (\<lambda>f.
     bind_err (read_prop payload ''pii_tokens_redacted'') (\<lambda>n.
       Inr \<lparr> ins_user_id = id_of u, ins_interaction_id = i, ins_prompt = p,
             ins_response = r, ins_score = s, ins_latency_ms = l,
             ins_flags = Some (js_or f (JArr [])),
             ins_pii_tokens_redacted = Some (js_or n (JNum 0)) \<rparr>)))))))"

text \<open>Lines 91-122.\<close>

definition persist :: "io \<Rightarrow> db \<Rightarrow> auth_user \<Rightarrow> request \<Rightarrow> call list \<Rightarrow> outcome" where
  "persist io d u req tr =
     (case json_body req of
        Inl msg \<Rightarrow> (Inl (JsError msg), d, tr @ [ReqJson])
      | Inr payload \<Rightarrow>
         (case build_insert u payload of
            Inl e \<Rightarrow> (Inl e, d, tr @ [ReqJson])
          | Inr obj \<Rightarrow>
             (case insert_evaluation io d obj of
                (Inl insertError, d') \<Rightarrow>
                  (Inr (json_response 500 (ErrorBody (message insertError))), d',
                   tr @ [ReqJson, InsertEvaluation obj])
              | (Inr evaluation, d') \<Rightarrow>
                  (Inr (json_response 201 (SuccessBody evaluation)), d',
                   tr @ [ReqJson, InsertEvaluation obj]))))"

text \<open>
  Lines 75-76: \<open>new Date()\<close>, then \<open>setHours(0, 0, 0, 0)\<close>: the start of the local day,
  for a zone \<open>tz\<close> milliseconds ahead of UTC.
\<close>

definition setHours0 :: "int \<Rightarrow> timestamp \<Rightarrow> timestamp" where
  "setHours0 tz t = t - ((t + tz) mod 86400000)"

text \<open>Line 84: \<open>count !== null && count >= config.max_eval_per_day\<close>.\<close>

definition limit_reached :: "int option \<Rightarrow> eval_config \<Rightarrow> bool" where
  "limit_reached count config =
     (case count of None \<Rightarrow> False | Some c \<Rightarrow> max_eval_per_day config \<le> c)"

text \<open>Lines 74-89, then persistence.\<close>

definition quota_gate ::
  "io \<Rightarrow> db \<Rightarrow> auth_user \<Rightarrow> eval_config \<Rightarrow> request \<Rightarrow> call list \<Rightarrow> outcome" where
  "quota_gate io d u config req tr =
     (let today = setHours0 (tz_offset io) (date_now io);
          count = count_evaluations io d (id_of u) today;
          tr' = tr @ [NewDate, CountEvaluations (id_of u) today]
      in if limit_reached count config
         then (Inr (json_response 429 (ErrorBody ''Daily evaluation limit reached'')), d, tr')
         else persist io d u req tr')"

text \<open>Line 64: \<open>Math.random() * 100 < config.sample_rate_pct\<close>.\<close>

definition shouldProcess :: "unit_double \<Rightarrow> eval_config \<Rightarrow> bool" where
  "shouldProcess draw config = (times100 draw < of_int (sample_rate_pct config))"

text \<open>Lines 62-72, then the quota gate.\<close>

definition sampling_gate ::
  "io \<Rightarrow> db \<Rightarrow> auth_user \<Rightarrow> eval_config \<Rightarrow> request \<Rightarrow> call list \<Rightarrow> outcome" where
  "sampling_gate io d u config req tr =
     (if run_policy config = ''sampled''
      then (if \<not> shouldProcess (random io) config
            then (Inr (json_response 200 (MessageBody ''Evaluation skipped due to sampling'')),
                  d, tr @ [MathRandom])
            else quota_gate io d u config req (tr @ [MathRandom]))
      else quota_gate io d u config req tr)"

text \<open>Lines 48-60, then the sampling gate.\<close>

definition config_gate :: "io \<Rightarrow> db \<Rightarrow> auth_user \<Rightarrow> request \<Rightarrow> call list \<Rightarrow> outcome" where
  "config_gate io d u req tr =
     (case select_config_single io d (id_of u) of
        None \<Rightarrow>
          (Inr (json_response 400 (ErrorBody ''No evaluation config found'')), d,
           tr @ [SelectConfig (id_of u)])
      | Some config \<Rightarrow> sampling_gate io d u config req (tr @ [SelectConfig (id_of u)]))"

text \<open>Lines 29-46, then the configuration lookup. \<open>!authHeader\<close> holds of \<open>null\<close> and of \<open>""\<close>.\<close>

definition auth_gate :: "io \<Rightarrow> db \<Rightarrow> request \<Rightarrow> outcome" where
  "auth_gate io d req =
     (case authorization req of
        None \<Rightarrow> (Inr (json_response 401 (ErrorBody ''Missing authorization header'')), d, [])
      | Some authHeader \<Rightarrow>
         if authHeader = []
         then (Inr (json_response 401 (ErrorBody ''Missing authorization header'')), d, [])
         else
           (let token = replace_first ''Bearer '' [] authHeader;
                res = getUser io token
            in case (auth_error res, user res) of
                 (None, Some u) \<Rightarrow> config_gate io d u req [GetUser token]
               | _ \<Rightarrow> (Inr (json_response 401 (ErrorBody ''Unauthorized'')), d, [GetUser token])))"

text \<open>Lines 123-130: the \<open>catch\<close> block.\<close>

definition catch_response :: "thrown \<Rightarrow> http_response" where
  "catch_response error =
     json_response 500
       (ErrorBody (case error of JsError msg \<Rightarrow> msg | NonError \<Rightarrow> ''Unknown error occurred''))"

text \<open>Lines 18-131: the whole handler.\<close>

definition serve :: "io \<Rightarrow> db \<Rightarrow> request \<Rightarrow> http_response \<times> db \<times> call list" where
  "serve io d req =
     (if req_method req = ''OPTIONS''
      then (\<lparr> status = 200, headers = corsHeaders, body = None \<rparr>, d, [])
      else (case auth_gate io d req of
              (Inl error, d', tr) \<Rightarrow> (catch_response error, d', tr)
            | (Inr resp, d', tr) \<Rightarrow> (resp, d', tr)))"

subsection \<open>The quota window as the specification words it\<close>

text \<open>
  Section 4.2 of the specification: the count of the records owned by \<open>userId\<close> whose
  \<open>createdAt\<close> lies in \<open>[startOfToday, now)\<close>. This definition follows the specification,
  not the code; it is compared with \<open>count_evaluations\<close> below.
\<close>

definition countToday_spec :: "evaluation list \<Rightarrow> string \<Rightarrow> timestamp \<Rightarrow> timestamp \<Rightarrow> int" where
  "countToday_spec rows uid startOfToday now =
     int (length (filter (\<lambda>r. user_id r = uid \<and> startOfToday \<le> created_at r \<and> created_at r < now) rows))"

subsection \<open>Concrete invocations\<close>

text \<open>
  One user, \<open>u1\<close>, known to the identity provider under the token \<open>tok1\<close>. The clock
  stands at 5 seconds into day 3 (UTC), so today starts at 259200000. The draw is 0.5.
\<close>

definition idp :: "string \<Rightarrow> auth_response" where
  "idp token =
     (if token = ''tok1'' then \<lparr>user = Some (AuthUser ''u1''), auth_error = None\<rparr>
      else \<lparr>user = None, auth_error = Some ''invalid JWT''\<rparr>)"

definition io0 :: io where
  "io0 = \<lparr> getUser = idp, config_read_error = None, random = \<lparr>mantissa = 4503599627370496, scale = 53\<rparr>,
           date_now = 259205000,
           tz_offset = 0, count_read_error = None, insert_io_error = None,
           gen_random_uuid = ''e9'', db_now = 259205001 \<rparr>"

definition config0 :: "string \<Rightarrow> int \<Rightarrow> int \<Rightarrow> eval_config" where
  "config0 policy pct limit =
     \<lparr> cfg_id = ''c1'', cfg_user_id = ''u1'', run_policy = policy, sample_rate_pct = pct,
       obfuscate_pii = False, max_eval_per_day = limit, cfg_created_at = 0,
       cfg_updated_at = 0 \<rparr>"

definition row0 :: "string \<Rightarrow> timestamp \<Rightarrow> evaluation" where
  "row0 ident t =
     \<lparr> eval_id = ident, user_id = ''u1'', interaction_id = ''i1'', prompt = ''p'',
       response = ''r'', score = None, latency_ms = 12, flags = Some [],
       pii_tokens_redacted = Some 0, created_at = t \<rparr>"

definition db0 :: "eval_config \<Rightarrow> evaluation list \<Rightarrow> db" where
  "db0 config rows = \<lparr> eval_configs = [config], evaluations = rows \<rparr>"

text \<open>
  A payload without \<open>score\<close>, \<open>flags\<close> and \<open>pii_tokens_redacted\<close>, which also carries a
  \<open>user_id\<close> and a \<open>created_at\<close> of the caller's choosing; the same with a score of 0.
\<close>

definition payload0 :: json where
  "payload0 =
     JObj [(''interaction_id'', JStr ''i1''), (''prompt'', JStr ''p''), (''response'', JStr ''r''),
           (''latency_ms'', JNum 12), (''user_id'', JStr ''intruder''),
           (''created_at'', JStr ''1999-01-01T00:00:00Z'')]"

definition payload_score0 :: json where
  "payload_score0 =
     JObj [(''interaction_id'', JStr ''i1''), (''prompt'', JStr ''p''), (''response'', JStr ''r''),
           (''score'', JNum 0), (''latency_ms'', JNum 12)]"

definition req0 :: "string + json \<Rightarrow> request" where
  "req0 b = \<lparr> req_method = ''POST'', authorization = Some ''Bearer tok1'', json_body = b \<rparr>"

section \<open>Properties\<close>

subsection \<open>The paths through the handler\<close>



lemma round_shift_lower: "2 * p \<le> 2 * (round_shift p s * 2 ^ s) + 2 ^ s"
proof -
  let ?q = "p div 2 ^ s" and ?r = "p mod 2 ^ s"
  have p: "p = ?q * 2 ^ s + ?r" by (simp add: div_mult_mod_eq)
  have r: "?r < 2 ^ s" by simp
  show ?thesis
  proof (cases "2 ^ s < 2 * ?r \<or> (2 * ?r = 2 ^ s \<and> odd ?q)")
    case True
    then have up: "round_shift p s = ?q + 1" by (auto simp: round_shift_def Let_def)
    have "2 * p = 2 * (?q * 2 ^ s) + 2 * ?r" using p by simp
    also have "\<dots> \<le> 2 * (?q * 2 ^ s) + 2 * 2 ^ s" using r by simp
    also have "\<dots> = 2 * ((?q + 1) * 2 ^ s)" by (simp add: algebra_simps)
    finally have "2 * p \<le> 2 * ((?q + 1) * 2 ^ s) + 2 ^ s" by simp
    then show ?thesis by (simp only: up)
  next
    case False
    then have down: "round_shift p s = ?q" and h: "2 * ?r \<le> 2 ^ s"
      by (auto simp: round_shift_def Let_def)
    have "2 * p = 2 * (?q * 2 ^ s) + 2 * ?r" using p by simp
    also have "\<dots> \<le> 2 * (?q * 2 ^ s) + 2 ^ s" using h by simp
    finally show ?thesis by (simp only: down)
  qed
qed



lemma times100_exact:
  "bit_length (100 * mantissa x) \<le> 53 \<Longrightarrow> times100 x = 100 * random_value x"
  by (simp add: times100_def random_value_def round_shift_def Let_def)

lemma bit_length_values:
  "bit_length 0 = 0" "bit_length 450359962737049600 = 59" "bit_length 900719925474099100 = 60"
  "bit_length 630503947831869400 = 60"
  by (simp_all add: bit_length.simps)

lemma times100_values [simp]:
  "times100 \<lparr>mantissa = 0, scale = 0\<rparr> = 0"
  "times100 \<lparr>mantissa = 4503599627370496, scale = 53\<rparr> = 50"
  "times100 \<lparr>mantissa = 9007199254740991, scale = 53\<rparr> = 100 - 1 / 2 ^ 46"
  "times100 \<lparr>mantissa = 6305039478318694, scale = 53\<rparr> = 70"
  by (simp_all add: times100_def round_shift_def Let_def bit_length_values)

lemma status_json_response [simp]: "status (json_response st b) = st"
  by (simp add: json_response_def)

lemma body_json_response [simp]: "body (json_response st b) = Some b"
  by (simp add: json_response_def)

lemma json_response_eq [simp]: "(json_response s b = json_response s' b') = (s = s' \<and> b = b')"
  by (auto simp: json_response_def)

lemma status_catch_response [simp]: "status (catch_response e) = 500"
  by (simp add: catch_response_def)

lemma setHours0_le: "setHours0 tz t \<le> t"
  by (simp add: setHours0_def)

lemma insert_evaluation_Inr:
  "insert_evaluation io d obj = (Inr row, d') \<Longrightarrow>
     new_row io obj = Inr row \<and> d' = d\<lparr>evaluations := evaluations d @ [row]\<rparr>
     \<and> eval_id row \<notin> set (map eval_id (evaluations d))"
  by (auto simp: insert_evaluation_def split: option.splits sum.splits if_splits)

lemma insert_evaluation_Inl: "insert_evaluation io d obj = (Inl e, d') \<Longrightarrow> d' = d"
  by (auto simp: insert_evaluation_def split: option.splits sum.splits if_splits)

lemma new_row_Inr:
  "new_row io obj = Inr row \<Longrightarrow>
     eval_id row = gen_random_uuid io \<and> user_id row = ins_user_id obj \<and> created_at row = db_now io
     \<and> text_not_null ''interaction_id'' (ins_interaction_id obj) = Inr (interaction_id row)
     \<and> score_col (ins_score obj) = Inr (score row)
     \<and> flags_col (ins_flags obj) = Inr (flags row)
     \<and> pii_tokens_redacted_col (ins_pii_tokens_redacted obj) = Inr (pii_tokens_redacted row)"
  by (auto simp: new_row_def bind_err_def split: sum.splits)

lemma build_insert_Inr:
  "build_insert u p = Inr obj \<Longrightarrow>
     ins_user_id obj = id_of u \<and> read_prop p ''score'' = Inr (ins_score obj)
     \<and> (\<exists>f. read_prop p ''flags'' = Inr f \<and> ins_flags obj = Some (js_or f (JArr [])))
     \<and> (\<exists>n. read_prop p ''pii_tokens_redacted'' = Inr n
            \<and> ins_pii_tokens_redacted obj = Some (js_or n (JNum 0)))"
  by (auto simp: build_insert_def bind_err_def split: sum.splits)

lemma persist_cases:
  "persist io d u req tr = (out, d', tr') \<Longrightarrow>
     (\<exists>msg. json_body req = Inl msg \<and> out = Inl (JsError msg) \<and> d' = d \<and> tr' = tr @ [ReqJson])
   \<or> (\<exists>p e. json_body req = Inr p \<and> build_insert u p = Inl e \<and> out = Inl e \<and> d' = d
          \<and> tr' = tr @ [ReqJson])
   \<or> (\<exists>p obj e. json_body req = Inr p \<and> build_insert u p = Inr obj
          \<and> insert_evaluation io d obj = (Inl e, d)
          \<and> out = Inr (json_response 500 (ErrorBody (message e))) \<and> d' = d
          \<and> tr' = tr @ [ReqJson, InsertEvaluation obj])
   \<or> (\<exists>p obj row. json_body req = Inr p \<and> build_insert u p = Inr obj
          \<and> insert_evaluation io d obj = (Inr row, d')
          \<and> out = Inr (json_response 201 (SuccessBody row))
          \<and> tr' = tr @ [ReqJson, InsertEvaluation obj])"
  by (auto simp: persist_def split: sum.splits prod.splits dest: insert_evaluation_Inl)

lemma serve_authorized:
  assumes "req_method req \<noteq> ''OPTIONS''"
    and "authorization req = Some h" and "h \<noteq> []"
    and "user (getUser io (replace_first ''Bearer '' [] h)) = Some u"
    and "auth_error (getUser io (replace_first ''Bearer '' [] h)) = None"
  shows "serve io d req =
           (case config_gate io d u req [GetUser (replace_first ''Bearer '' [] h)] of
              (Inl error, d', tr) \<Rightarrow> (catch_response error, d', tr)
            | (Inr resp, d', tr) \<Rightarrow> (resp, d', tr))"
  using assms by (simp add: serve_def auth_gate_def Let_def)

lemma serve_no_config:
  assumes "req_method req \<noteq> ''OPTIONS''"
    and "authorization req = Some h" and "h \<noteq> []"
    and "user (getUser io (replace_first ''Bearer '' [] h)) = Some u"
    and "auth_error (getUser io (replace_first ''Bearer '' [] h)) = None"
    and "select_config_single io d (id_of u) = None"
  shows "serve io d req =
           (json_response 400 (ErrorBody ''No evaluation config found''), d,
            [GetUser (replace_first ''Bearer '' [] h), SelectConfig (id_of u)])"
  using assms by (simp add: serve_authorized config_gate_def)

lemma serve_configured:
  assumes "req_method req \<noteq> ''OPTIONS''"
    and "authorization req = Some h" and "h \<noteq> []"
    and "user (getUser io (replace_first ''Bearer '' [] h)) = Some u"
    and "auth_error (getUser io (replace_first ''Bearer '' [] h)) = None"
    and "select_config_single io d (id_of u) = Some config"
  shows "serve io d req =
     (if run_policy config = ''sampled'' \<and> \<not> shouldProcess (random io) config
      then (json_response 200 (MessageBody ''Evaluation skipped due to sampling''), d,
            [GetUser (replace_first ''Bearer '' [] h), SelectConfig (id_of u), MathRandom])
      else if limit_reached
                (count_evaluations io d (id_of u) (setHours0 (tz_offset io) (date_now io))) config
      then (json_response 429 (ErrorBody ''Daily evaluation limit reached''), d,
            [GetUser (replace_first ''Bearer '' [] h), SelectConfig (id_of u)]
            @ (if run_policy config = ''sampled'' then [MathRandom] else [])
            @ [NewDate, CountEvaluations (id_of u) (setHours0 (tz_offset io) (date_now io))])
      else (case persist io d u req
                  ([GetUser (replace_first ''Bearer '' [] h), SelectConfig (id_of u)]
                   @ (if run_policy config = ''sampled'' then [MathRandom] else [])
                   @ [NewDate, CountEvaluations (id_of u) (setHours0 (tz_offset io) (date_now io))]) of
              (Inl error, d', tr) \<Rightarrow> (catch_response error, d', tr)
            | (Inr resp, d', tr) \<Rightarrow> (resp, d', tr)))"
  using assms
  by (simp add: serve_authorized config_gate_def sampling_gate_def quota_gate_def Let_def)

lemma serve_persist_cases:
  assumes "(case persist io d u req tr0 of
              (Inl error, d', tr) \<Rightarrow> (catch_response error, d', tr)
            | (Inr resp, d', tr) \<Rightarrow> (resp, d', tr)) = (resp, d', tr)"
  shows "(\<exists>msg. json_body req = Inl msg \<and> resp = json_response 500 (ErrorBody msg) \<and> d' = d
            \<and> tr = tr0 @ [ReqJson])
       \<or> (\<exists>p e. json_body req = Inr p \<and> build_insert u p = Inl e \<and> resp = catch_response e
            \<and> d' = d \<and> tr = tr0 @ [ReqJson])
       \<or> (\<exists>p obj e. json_body req = Inr p \<and> build_insert u p = Inr obj
            \<and> insert_evaluation io d obj = (Inl e, d)
            \<and> resp = json_response 500 (ErrorBody (message e)) \<and> d' = d
            \<and> tr = tr0 @ [ReqJson, InsertEvaluation obj])
       \<or> (\<exists>p obj row. json_body req = Inr p \<and> build_insert u p = Inr obj
            \<and> insert_evaluation io d obj = (Inr row, d')
            \<and> resp = json_response 201 (SuccessBody row)
            \<and> tr = tr0 @ [ReqJson, InsertEvaluation obj])"
proof -
  obtain out d1 tr1 where p: "persist io d u req tr0 = (out, d1, tr1)"
    by (cases "persist io d u req tr0") auto
  from persist_cases [OF p] assms p show ?thesis
    by (auto simp: catch_response_def)
qed

lemma serve_options:
  "req_method req = ''OPTIONS'' \<Longrightarrow>
     serve io d req = (\<lparr>status = 200, headers = corsHeaders, body = None\<rparr>, d, [])"
  by (simp add: serve_def)

lemma serve_missing_header:
  "req_method req \<noteq> ''OPTIONS'' \<Longrightarrow> authorization req = None \<or> authorization req = Some [] \<Longrightarrow>
     serve io d req = (json_response 401 (ErrorBody ''Missing authorization header''), d, [])"
  by (auto simp add: serve_def auth_gate_def)

lemma serve_unauthorized:
  assumes "req_method req \<noteq> ''OPTIONS''"
    and "authorization req = Some h" and "h \<noteq> []"
    and "auth_error (getUser io (replace_first ''Bearer '' [] h)) \<noteq> None
         \<or> user (getUser io (replace_first ''Bearer '' [] h)) = None"
  shows "serve io d req =
           (json_response 401 (ErrorBody ''Unauthorized''), d,
            [GetUser (replace_first ''Bearer '' [] h)])"
  using assms by (auto simp add: serve_def auth_gate_def Let_def split: option.splits)

lemma serve_skip:
  assumes "req_method req \<noteq> ''OPTIONS''"
    and "authorization req = Some h" and "h \<noteq> []"
    and "user (getUser io (replace_first ''Bearer '' [] h)) = Some u"
    and "auth_error (getUser io (replace_first ''Bearer '' [] h)) = None"
    and "select_config_single io d (id_of u) = Some config"
    and "run_policy config = ''sampled''" and "\<not> shouldProcess (random io) config"
  shows "serve io d req =
      (json_response 200 (MessageBody ''Evaluation skipped due to sampling''), d,
       [GetUser (replace_first ''Bearer '' [] h), SelectConfig (id_of u), MathRandom])"
  using serve_configured [OF assms(1-6)] assms(7,8) by simp

lemma serve_limit:
  assumes "req_method req \<noteq> ''OPTIONS''"
    and "authorization req = Some h" and "h \<noteq> []"
    and "user (getUser io (replace_first ''Bearer '' [] h)) = Some u"
    and "auth_error (getUser io (replace_first ''Bearer '' [] h)) = None"
    and "select_config_single io d (id_of u) = Some config"
    and "run_policy config = ''sampled'' \<longrightarrow> shouldProcess (random io) config"
    and "limit_reached
           (count_evaluations io d (id_of u) (setHours0 (tz_offset io) (date_now io))) config"
  shows "serve io d req =
      (json_response 429 (ErrorBody ''Daily evaluation limit reached''), d,
       [GetUser (replace_first ''Bearer '' [] h), SelectConfig (id_of u)]
       @ (if run_policy config = ''sampled'' then [MathRandom] else [])
       @ [NewDate, CountEvaluations (id_of u) (setHours0 (tz_offset io) (date_now io))])"
proof (cases "run_policy config = ''sampled''")
  case True
  with assms(7) have "shouldProcess (random io) config" by simp
  with serve_configured [OF assms(1-6)] assms(8) True show ?thesis by simp
next
  case False
  with serve_configured [OF assms(1-6)] assms(8) show ?thesis by simp
qed

lemma serve_pass:
  assumes "req_method req \<noteq> ''OPTIONS''"
    and "authorization req = Some h" and "h \<noteq> []"
    and "user (getUser io (replace_first ''Bearer '' [] h)) = Some u"
    and "auth_error (getUser io (replace_first ''Bearer '' [] h)) = None"
    and "select_config_single io d (id_of u) = Some config"
    and "run_policy config = ''sampled'' \<longrightarrow> shouldProcess (random io) config"
    and "\<not> limit_reached
           (count_evaluations io d (id_of u) (setHours0 (tz_offset io) (date_now io))) config"
  shows "serve io d req =
      (case persist io d u req
              ([GetUser (replace_first ''Bearer '' [] h), SelectConfig (id_of u)]
               @ (if run_policy config = ''sampled'' then [MathRandom] else [])
               @ [NewDate, CountEvaluations (id_of u) (setHours0 (tz_offset io) (date_now io))]) of
         (Inl error, d', tr) \<Rightarrow> (catch_response error, d', tr)
       | (Inr resp, d', tr) \<Rightarrow> (resp, d', tr))"
proof (cases "run_policy config = ''sampled''")
  case True
  with assms(7) have "shouldProcess (random io) config" by simp
  with serve_configured [OF assms(1-6)] assms(8) True show ?thesis by simp
next
  case False
  with serve_configured [OF assms(1-6)] assms(8) show ?thesis by simp
qed

lemma status_persist:
  assumes "(case persist io d u req tr0 of
              (Inl error, d', tr) \<Rightarrow> (catch_response error, d', tr)
            | (Inr resp, d', tr) \<Rightarrow> (resp, d', tr)) = (resp, d', tr)"
  shows "(status resp = 500 \<or> status resp = 201) \<and> ReqJson \<in> set tr \<and> MathRandom \<in> set tr0 = (MathRandom \<in> set tr)"
  using serve_persist_cases [OF assms] by (elim disjE exE conjE) simp_all

lemma insert0:
  "build_insert (AuthUser ''u1'') payload0 =
     Inr \<lparr> ins_user_id = ''u1'', ins_interaction_id = Some (JStr ''i1''),
           ins_prompt = Some (JStr ''p''), ins_response = Some (JStr ''r''), ins_score = None,
           ins_latency_ms = Some (JNum 12), ins_flags = Some (JArr []),
           ins_pii_tokens_redacted = Some (JNum 0) \<rparr>"
  by (simp add: build_insert_def payload0_def bind_err_def js_or_def)

lemma stored0:
  "gen_random_uuid io \<notin> set (map eval_id (evaluations d)) \<Longrightarrow> insert_io_error io = None \<Longrightarrow>
   insert_evaluation io d
     \<lparr> ins_user_id = ''u1'', ins_interaction_id = Some (JStr ''i1''),
       ins_prompt = Some (JStr ''p''), ins_response = Some (JStr ''r''), ins_score = None,
       ins_latency_ms = Some (JNum 12), ins_flags = Some (JArr []),
       ins_pii_tokens_redacted = Some (JNum 0) \<rparr>
   = (Inr (row0 (gen_random_uuid io) (db_now io)),
      d\<lparr>evaluations := evaluations d @ [row0 (gen_random_uuid io) (db_now io)]\<rparr>)"
  by (simp add: insert_evaluation_def new_row_def bind_err_def int4_value_def row0_def)


lemma new_row_random [simp]: "new_row (io\<lparr>random := r\<rparr>) obj = new_row io obj"
  by (simp add: new_row_def)

lemma insert_evaluation_random [simp]:
  "insert_evaluation (io\<lparr>random := r\<rparr>) d obj = insert_evaluation io d obj"
  by (simp add: insert_evaluation_def split: option.splits)

lemma persist_random [simp]: "persist (io\<lparr>random := r\<rparr>) d u req tr = persist io d u req tr"
  by (simp add: persist_def split: sum.splits)

lemma count_evaluations_random [simp]:
  "count_evaluations (io\<lparr>random := r\<rparr>) d uid since = count_evaluations io d uid since"
  by (simp add: count_evaluations_def)

lemma select_config_single_random [simp]:
  "select_config_single (io\<lparr>random := r\<rparr>) d uid = select_config_single io d uid"
  by (simp add: select_config_single_def)

lemma req0_simps [simp]:
  "req_method (req0 b) \<noteq> ''OPTIONS''" "authorization (req0 b) = Some ''Bearer tok1''"
  "json_body (req0 b) = b"
  by (simp_all add: req0_def)

lemma idp_tok1:
  "getUser io = idp \<Longrightarrow> user (getUser io (replace_first ''Bearer '' [] ''Bearer tok1'')) = Some (AuthUser ''u1'')"
  "getUser io = idp \<Longrightarrow> auth_error (getUser io (replace_first ''Bearer '' [] ''Bearer tok1'')) = None"
  by (simp_all add: idp_def)

lemma config_found0:
  "config_read_error io = None \<Longrightarrow>
   select_config_single io (db0 (config0 p pct k) rows) (id_of (AuthUser ''u1''))
     = Some (config0 p pct k)"
  by (simp add: select_config_single_def db0_def config0_def)

lemma response_shapes:
  assumes "serve io d req = (resp, d', tr)"
  shows "(req_method req = ''OPTIONS'' \<and> resp = \<lparr>status = 200, headers = corsHeaders, body = None\<rparr>
            \<and> d' = d \<and> tr = [])
       \<or> (resp = json_response 401 (ErrorBody ''Missing authorization header'') \<and> d' = d \<and> tr = [])
       \<or> (\<exists>tok. resp = json_response 401 (ErrorBody ''Unauthorized'') \<and> d' = d \<and> tr = [GetUser tok])
       \<or> (\<exists>uid. resp = json_response 400 (ErrorBody ''No evaluation config found'') \<and> d' = d
              \<and> last tr = SelectConfig uid)
       \<or> (resp = json_response 200 (MessageBody ''Evaluation skipped due to sampling'')
              \<and> d' = d \<and> last tr = MathRandom)
       \<or> (\<exists>uid since. resp = json_response 429 (ErrorBody ''Daily evaluation limit reached'')
              \<and> d' = d \<and> last tr = CountEvaluations uid since)
       \<or> (\<exists>obj row. resp = json_response 201 (SuccessBody row)
              \<and> d' = d\<lparr>evaluations := evaluations d @ [row]\<rparr>
              \<and> last tr = InsertEvaluation obj)
       \<or> (\<exists>obj e. resp = json_response 500 (ErrorBody (message e)) \<and> d' = d
              \<and> last tr = InsertEvaluation obj)
       \<or> (\<exists>msg. resp = json_response 500 (ErrorBody msg) \<and> d' = d \<and> last tr = ReqJson)"
proof (cases "req_method req = ''OPTIONS''")
  case True
  from serve_options [OF True, of io d] assms
  have "resp = \<lparr>status = 200, headers = corsHeaders, body = None\<rparr>" "d' = d" "tr = []"
    by simp_all
  with True show ?thesis by simp
next
  case post: False
  show ?thesis
  proof (cases "authorization req = None \<or> authorization req = Some []")
    case True
    from serve_missing_header [OF post True, of io d] assms
    have "resp = json_response 401 (ErrorBody ''Missing authorization header'')" "d' = d" "tr = []"
      by simp_all
    then show ?thesis by simp
  next
    case False
    then obtain h where h: "authorization req = Some h" "h \<noteq> []" by auto
    show ?thesis
    proof (cases "auth_error (getUser io (replace_first ''Bearer '' [] h)) = None
                  \<and> user (getUser io (replace_first ''Bearer '' [] h)) \<noteq> None")
      case False
      then have "auth_error (getUser io (replace_first ''Bearer '' [] h)) \<noteq> None
         \<or> user (getUser io (replace_first ''Bearer '' [] h)) = None" by simp
      from serve_unauthorized [OF post h this, of d] assms
      have "resp = json_response 401 (ErrorBody ''Unauthorized'')" "d' = d"
        "tr = [GetUser (replace_first ''Bearer '' [] h)]"
        by simp_all
      then show ?thesis by simp
    next
      case True
      then obtain u where u: "user (getUser io (replace_first ''Bearer '' [] h)) = Some u"
        "auth_error (getUser io (replace_first ''Bearer '' [] h)) = None" by auto
      show ?thesis
      proof (cases "select_config_single io d (id_of u)")
        case None
        from serve_no_config [OF post h u None] assms
        have "resp = json_response 400 (ErrorBody ''No evaluation config found'')" "d' = d"
          "last tr = SelectConfig (id_of u)"
          by auto
        then show ?thesis by simp
      next
        case (Some config)
        note sc = serve_configured [OF post h u Some]
        consider (skip) "run_policy config = ''sampled'' \<and> \<not> shouldProcess (random io) config"
          | (limit) "\<not> (run_policy config = ''sampled'' \<and> \<not> shouldProcess (random io) config)"
              "limit_reached (count_evaluations io d (id_of u) (setHours0 (tz_offset io) (date_now io))) config"
          | (pass) "\<not> (run_policy config = ''sampled'' \<and> \<not> shouldProcess (random io) config)"
              "\<not> limit_reached (count_evaluations io d (id_of u) (setHours0 (tz_offset io) (date_now io))) config"
          by blast
        then show ?thesis
        proof cases
          case skip
          with sc have "serve io d req =
             (json_response 200 (MessageBody ''Evaluation skipped due to sampling''), d,
              [GetUser (replace_first ''Bearer '' [] h), SelectConfig (id_of u), MathRandom])"
            by simp
          with assms have "resp = json_response 200 (MessageBody ''Evaluation skipped due to sampling'')"
            "d' = d" "last tr = MathRandom" by auto
          then show ?thesis by simp
        next
          case limit
          with sc have "serve io d req =
             (json_response 429 (ErrorBody ''Daily evaluation limit reached''), d,
              [GetUser (replace_first ''Bearer '' [] h), SelectConfig (id_of u)]
              @ (if run_policy config = ''sampled'' then [MathRandom] else [])
              @ [NewDate, CountEvaluations (id_of u) (setHours0 (tz_offset io) (date_now io))])"
            by simp
          with assms have "resp = json_response 429 (ErrorBody ''Daily evaluation limit reached'')"
            "d' = d"
            "last tr = CountEvaluations (id_of u) (setHours0 (tz_offset io) (date_now io))" by auto
          then show ?thesis by simp
        next
          case pass
          with sc assms have "(case persist io d u req
                  ([GetUser (replace_first ''Bearer '' [] h), SelectConfig (id_of u)]
                   @ (if run_policy config = ''sampled'' then [MathRandom] else [])
                   @ [NewDate, CountEvaluations (id_of u) (setHours0 (tz_offset io) (date_now io))]) of
              (Inl error, d', tr) \<Rightarrow> (catch_response error, d', tr)
            | (Inr resp, d', tr) \<Rightarrow> (resp, d', tr)) = (resp, d', tr)"
            by simp
          from serve_persist_cases [OF this]
          consider (unparsable) msg where "resp = json_response 500 (ErrorBody msg)" "d' = d" "last tr = ReqJson"
            | (null_payload) e where "resp = catch_response e" "d' = d" "last tr = ReqJson"
            | (refused) obj e where "resp = json_response 500 (ErrorBody (message e))" "d' = d"
                "last tr = InsertEvaluation obj"
            | (stored) obj row where "insert_evaluation io d obj = (Inr row, d')"
                "resp = json_response 201 (SuccessBody row)" "last tr = InsertEvaluation obj"
            by (elim disjE exE conjE) simp_all
          then show ?thesis
          proof cases
            case unparsable
            then show ?thesis by simp
          next
            case null_payload
            then show ?thesis by (simp add: catch_response_def)
          next
            case refused
            then show ?thesis by simp blast
          next
            case stored
            from insert_evaluation_Inr [OF stored(1)] stored(2,3) show ?thesis by simp
          qed
        qed
      qed
    qed
  qed
qed

lemmas handler_defs = serve_def auth_gate_def config_gate_def sampling_gate_def quota_gate_def
  persist_def build_insert_def catch_response_def shouldProcess_def limit_reached_def setHours0_def
  bind_err_def js_or_def Let_def

lemmas store_defs = select_config_single_def count_evaluations_def matching_rows_def
  insert_evaluation_def new_row_def int4_value_def

lemmas fixture_defs = io0_def db0_def config0_def req0_def payload0_def payload_score0_def idp_def
  row0_def

lemma serve_skipped0:
  "serve io0 (db0 (config0 ''sampled'' 50 2) []) (req0 (Inl ''Unexpected end of JSON input''))
     = (json_response 200 (MessageBody ''Evaluation skipped due to sampling''),
        db0 (config0 ''sampled'' 50 2) [], [GetUser ''tok1'', SelectConfig ''u1'', MathRandom])"
  by (simp add: handler_defs store_defs fixture_defs)

lemma serve_limit0:
  "serve io0 (db0 (config0 ''always'' 100 1) [row0 ''e1'' 259200000])
      (req0 (Inl ''Unexpected end of JSON input''))
     = (json_response 429 (ErrorBody ''Daily evaluation limit reached''),
        db0 (config0 ''always'' 100 1) [row0 ''e1'' 259200000],
        [GetUser ''tok1'', SelectConfig ''u1'', NewDate, CountEvaluations ''u1'' 259200000])"
  by (simp add: handler_defs store_defs fixture_defs)

lemma serve_accepted0:
  "serve io0 (db0 (config0 ''always'' 100 2) [row0 ''e1'' 259200000]) (req0 (Inr payload0))
     = (json_response 201 (SuccessBody (row0 ''e9'' 259205001)),
        db0 (config0 ''always'' 100 2) [row0 ''e1'' 259200000, row0 ''e9'' 259205001],
        [GetUser ''tok1'', SelectConfig ''u1'', NewDate, CountEvaluations ''u1'' 259200000, ReqJson,
         InsertEvaluation
           \<lparr> ins_user_id = ''u1'', ins_interaction_id = Some (JStr ''i1''),
             ins_prompt = Some (JStr ''p''), ins_response = Some (JStr ''r''), ins_score = None,
             ins_latency_ms = Some (JNum 12), ins_flags = Some (JArr []),
             ins_pii_tokens_redacted = Some (JNum 0) \<rparr>])"
  by (simp add: handler_defs store_defs fixture_defs)

lemma serve_unauthorized0:
  "serve io0 d \<lparr>req_method = ''POST'', authorization = Some ''Bearer stale'', json_body = b\<rparr>
     = (json_response 401 (ErrorBody ''Unauthorized''), d, [GetUser ''stale''])"
  by (simp add: handler_defs fixture_defs)

lemma serve_no_config0:
  "serve io0 \<lparr>eval_configs = [], evaluations = []\<rparr> (req0 b)
     = (json_response 400 (ErrorBody ''No evaluation config found''),
        \<lparr>eval_configs = [], evaluations = []\<rparr>, [GetUser ''tok1'', SelectConfig ''u1''])"
  by (simp add: handler_defs store_defs fixture_defs)

lemma count_split:
  "since \<le> now \<Longrightarrow>
   int (length (matching_rows rows uid since))
     = countToday_spec rows uid since now
       + int (length (filter (\<lambda>r. user_id r = uid \<and> now \<le> created_at r) rows))"
  by (induction rows) (auto simp: matching_rows_def countToday_spec_def)

lemma serve_count_failed0:
  "serve (io0\<lparr>count_read_error := Some (PgError ''statement timeout'')\<rparr>)
      (db0 (config0 ''sampled'' 100 1) [row0 ''e1'' 259200000]) (req0 (Inr payload0))
     = (json_response 201 (SuccessBody (row0 ''e9'' 259205001)),
        db0 (config0 ''sampled'' 100 1) [row0 ''e1'' 259200000, row0 ''e9'' 259205001],
        [GetUser ''tok1'', SelectConfig ''u1'', MathRandom, NewDate,
         CountEvaluations ''u1'' 259200000, ReqJson,
         InsertEvaluation
           \<lparr> ins_user_id = ''u1'', ins_interaction_id = Some (JStr ''i1''),
             ins_prompt = Some (JStr ''p''), ins_response = Some (JStr ''r''), ins_score = None,
             ins_latency_ms = Some (JNum 12), ins_flags = Some (JArr []),
             ins_pii_tokens_redacted = Some (JNum 0) \<rparr>])"
  by (simp add: handler_defs store_defs fixture_defs)

lemma serve_classify [case_names options missing unauthorized no_config skipped limited
    unparsable null_payload refused stored]:
  assumes "req_method req = ''OPTIONS'' \<Longrightarrow>
      serve io d req = (\<lparr>status = 200, headers = corsHeaders, body = None\<rparr>, d, []) \<Longrightarrow> P"
    and "req_method req \<noteq> ''OPTIONS'' \<Longrightarrow> authorization req = None \<or> authorization req = Some [] \<Longrightarrow>
      serve io d req = (json_response 401 (ErrorBody ''Missing authorization header''), d, []) \<Longrightarrow> P"
    and "\<And>h. req_method req \<noteq> ''OPTIONS'' \<Longrightarrow> authorization req = Some h \<Longrightarrow> h \<noteq> [] \<Longrightarrow>
      auth_error (getUser io (replace_first ''Bearer '' [] h)) \<noteq> None
         \<or> user (getUser io (replace_first ''Bearer '' [] h)) = None \<Longrightarrow>
      serve io d req = (json_response 401 (ErrorBody ''Unauthorized''), d,
                        [GetUser (replace_first ''Bearer '' [] h)]) \<Longrightarrow> P"
    and "\<And>h u. req_method req \<noteq> ''OPTIONS'' \<Longrightarrow> authorization req = Some h \<Longrightarrow> h \<noteq> [] \<Longrightarrow>
      user (getUser io (replace_first ''Bearer '' [] h)) = Some u \<Longrightarrow>
      auth_error (getUser io (replace_first ''Bearer '' [] h)) = None \<Longrightarrow>
      select_config_single io d (id_of u) = None \<Longrightarrow>
      serve io d req = (json_response 400 (ErrorBody ''No evaluation config found''), d,
                        [GetUser (replace_first ''Bearer '' [] h), SelectConfig (id_of u)]) \<Longrightarrow> P"
    and "\<And>h u config. req_method req \<noteq> ''OPTIONS'' \<Longrightarrow> authorization req = Some h \<Longrightarrow> h \<noteq> [] \<Longrightarrow>
      user (getUser io (replace_first ''Bearer '' [] h)) = Some u \<Longrightarrow>
      auth_error (getUser io (replace_first ''Bearer '' [] h)) = None \<Longrightarrow>
      select_config_single io d (id_of u) = Some config \<Longrightarrow>
      run_policy config = ''sampled'' \<Longrightarrow> \<not> shouldProcess (random io) config \<Longrightarrow>
      serve io d req = (json_response 200 (MessageBody ''Evaluation skipped due to sampling''), d,
                        [GetUser (replace_first ''Bearer '' [] h), SelectConfig (id_of u), MathRandom])
      \<Longrightarrow> P"
    and "\<And>h u config. req_method req \<noteq> ''OPTIONS'' \<Longrightarrow> authorization req = Some h \<Longrightarrow> h \<noteq> [] \<Longrightarrow>
      user (getUser io (replace_first ''Bearer '' [] h)) = Some u \<Longrightarrow>
      auth_error (getUser io (replace_first ''Bearer '' [] h)) = None \<Longrightarrow>
      select_config_single io d (id_of u) = Some config \<Longrightarrow>
      run_policy config = ''sampled'' \<longrightarrow> shouldProcess (random io) config \<Longrightarrow>
      limit_reached (count_evaluations io d (id_of u) (setHours0 (tz_offset io) (date_now io))) config \<Longrightarrow>
      serve io d req = (json_response 429 (ErrorBody ''Daily evaluation limit reached''), d,
         [GetUser (replace_first ''Bearer '' [] h), SelectConfig (id_of u)]
         @ (if run_policy config = ''sampled'' then [MathRandom] else [])
         @ [NewDate, CountEvaluations (id_of u) (setHours0 (tz_offset io) (date_now io))])
      \<Longrightarrow> P"
    and "\<And>h u config msg. req_method req \<noteq> ''OPTIONS'' \<Longrightarrow> authorization req = Some h \<Longrightarrow> h \<noteq> [] \<Longrightarrow>
      user (getUser io (replace_first ''Bearer '' [] h)) = Some u \<Longrightarrow>
      auth_error (getUser io (replace_first ''Bearer '' [] h)) = None \<Longrightarrow>
      select_config_single io d (id_of u) = Some config \<Longrightarrow>
      run_policy config = ''sampled'' \<longrightarrow> shouldProcess (random io) config \<Longrightarrow>
      \<not> limit_reached (count_evaluations io d (id_of u) (setHours0 (tz_offset io) (date_now io))) config \<Longrightarrow>
      json_body req = Inl msg \<Longrightarrow>
      serve io d req = (json_response 500 (ErrorBody msg), d,
         [GetUser (replace_first ''Bearer '' [] h), SelectConfig (id_of u)]
         @ (if run_policy config = ''sampled'' then [MathRandom] else [])
         @ [NewDate, CountEvaluations (id_of u) (setHours0 (tz_offset io) (date_now io)), ReqJson])
      \<Longrightarrow> P"
    and "\<And>h u config p e. req_method req \<noteq> ''OPTIONS'' \<Longrightarrow> authorization req = Some h \<Longrightarrow> h \<noteq> [] \<Longrightarrow>
      user (getUser io (replace_first ''Bearer '' [] h)) = Some u \<Longrightarrow>
      auth_error (getUser io (replace_first ''Bearer '' [] h)) = None \<Longrightarrow>
      select_config_single io d (id_of u) = Some config \<Longrightarrow>
      run_policy config = ''sampled'' \<longrightarrow> shouldProcess (random io) config \<Longrightarrow>
      \<not> limit_reached (count_evaluations io d (id_of u) (setHours0 (tz_offset io) (date_now io))) config \<Longrightarrow>
      json_body req = Inr p \<Longrightarrow> build_insert u p = Inl e \<Longrightarrow>
      serve io d req = (catch_response e, d,
         [GetUser (replace_first ''Bearer '' [] h), SelectConfig (id_of u)]
         @ (if run_policy config = ''sampled'' then [MathRandom] else [])
         @ [NewDate, CountEvaluations (id_of u) (setHours0 (tz_offset io) (date_now io)), ReqJson])
      \<Longrightarrow> P"
    and "\<And>h u config p obj e. req_method req \<noteq> ''OPTIONS'' \<Longrightarrow> authorization req = Some h \<Longrightarrow> h \<noteq> [] \<Longrightarrow>
      user (getUser io (replace_first ''Bearer '' [] h)) = Some u \<Longrightarrow>
      auth_error (getUser io (replace_first ''Bearer '' [] h)) = None \<Longrightarrow>
      select_config_single io d (id_of u) = Some config \<Longrightarrow>
      run_policy config = ''sampled'' \<longrightarrow> shouldProcess (random io) config \<Longrightarrow>
      \<not> limit_reached (count_evaluations io d (id_of u) (setHours0 (tz_offset io) (date_now io))) config \<Longrightarrow>
      json_body req = Inr p \<Longrightarrow> build_insert u p = Inr obj \<Longrightarrow>
      insert_evaluation io d obj = (Inl e, d) \<Longrightarrow>
      serve io d req = (json_response 500 (ErrorBody (message e)), d,
         [GetUser (replace_first ''Bearer '' [] h), SelectConfig (id_of u)]
         @ (if run_policy config = ''sampled'' then [MathRandom] else [])
         @ [NewDate, CountEvaluations (id_of u) (setHours0 (tz_offset io) (date_now io)), ReqJson,
            InsertEvaluation obj])
      \<Longrightarrow> P"
    and "\<And>h u config p obj row. req_method req \<noteq> ''OPTIONS'' \<Longrightarrow> authorization req = Some h \<Longrightarrow> h \<noteq> [] \<Longrightarrow>
      user (getUser io (replace_first ''Bearer '' [] h)) = Some u \<Longrightarrow>
      auth_error (getUser io (replace_first ''Bearer '' [] h)) = None \<Longrightarrow>
      select_config_single io d (id_of u) = Some config \<Longrightarrow>
      run_policy config = ''sampled'' \<longrightarrow> shouldProcess (random io) config \<Longrightarrow>
      \<not> limit_reached (count_evaluations io d (id_of u) (setHours0 (tz_offset io) (date_now io))) config \<Longrightarrow>
      json_body req = Inr p \<Longrightarrow> build_insert u p = Inr obj \<Longrightarrow>
      insert_evaluation io d obj = (Inr row, d\<lparr>evaluations := evaluations d @ [row]\<rparr>) \<Longrightarrow>
      serve io d req = (json_response 201 (SuccessBody row), d\<lparr>evaluations := evaluations d @ [row]\<rparr>,
         [GetUser (replace_first ''Bearer '' [] h), SelectConfig (id_of u)]
         @ (if run_policy config = ''sampled'' then [MathRandom] else [])
         @ [NewDate, CountEvaluations (id_of u) (setHours0 (tz_offset io) (date_now io)), ReqJson,
            InsertEvaluation obj])
      \<Longrightarrow> P"
  shows P
proof (cases "req_method req = ''OPTIONS''")
  case True
  from assms(1) [OF True serve_options [OF True]] show P .
next
  case post: False
  show P
  proof (cases "authorization req = None \<or> authorization req = Some []")
    case True
    from assms(2) [OF post True serve_missing_header [OF post True]] show P .
  next
    case False
    then obtain h where h: "authorization req = Some h" "h \<noteq> []" by auto
    show P
    proof (cases "auth_error (getUser io (replace_first ''Bearer '' [] h)) = None
                  \<and> user (getUser io (replace_first ''Bearer '' [] h)) \<noteq> None")
      case False
      then have f: "auth_error (getUser io (replace_first ''Bearer '' [] h)) \<noteq> None
         \<or> user (getUser io (replace_first ''Bearer '' [] h)) = None" by simp
      from assms(3) [OF post h f serve_unauthorized [OF post h f]] show P .
    next
      case True
      then obtain u where u: "user (getUser io (replace_first ''Bearer '' [] h)) = Some u"
        "auth_error (getUser io (replace_first ''Bearer '' [] h)) = None" by auto
      show P
      proof (cases "select_config_single io d (id_of u)")
        case None
        from assms(4) [OF post h u None serve_no_config [OF post h u None]] show P .
      next
        case (Some config)
        show P
        proof (cases "run_policy config = ''sampled'' \<and> \<not> shouldProcess (random io) config")
          case True
          then have sk: "run_policy config = ''sampled''" "\<not> shouldProcess (random io) config"
            by simp_all
          from assms(5) [OF post h u Some sk serve_skip [OF post h u Some sk]] show P .
        next
          case False
          then have gate: "run_policy config = ''sampled'' \<longrightarrow> shouldProcess (random io) config"
            by simp
          show P
          proof (cases "limit_reached
              (count_evaluations io d (id_of u) (setHours0 (tz_offset io) (date_now io))) config")
            case True
            from assms(6) [OF post h u Some gate True serve_limit [OF post h u Some gate True]]
            show P .
          next
            case q: False
            note sp = serve_pass [OF post h u Some gate q]
            obtain resp d' tr where s: "serve io d req = (resp, d', tr)"
              by (cases "serve io d req") auto
            with sp have "(case persist io d u req
                  ([GetUser (replace_first ''Bearer '' [] h), SelectConfig (id_of u)]
                   @ (if run_policy config = ''sampled'' then [MathRandom] else [])
                   @ [NewDate, CountEvaluations (id_of u) (setHours0 (tz_offset io) (date_now io))]) of
              (Inl error, d', tr) \<Rightarrow> (catch_response error, d', tr)
            | (Inr resp, d', tr) \<Rightarrow> (resp, d', tr)) = (resp, d', tr)"
              by simp
            from serve_persist_cases [OF this]
            consider (a) msg where "json_body req = Inl msg" "resp = json_response 500 (ErrorBody msg)"
                "d' = d" "tr = ([GetUser (replace_first ''Bearer '' [] h), SelectConfig (id_of u)]
                   @ (if run_policy config = ''sampled'' then [MathRandom] else [])
                   @ [NewDate, CountEvaluations (id_of u) (setHours0 (tz_offset io) (date_now io))]) @ [ReqJson]"
              | (b) p e where "json_body req = Inr p" "build_insert u p = Inl e"
                "resp = catch_response e" "d' = d"
                "tr = ([GetUser (replace_first ''Bearer '' [] h), SelectConfig (id_of u)]
                   @ (if run_policy config = ''sampled'' then [MathRandom] else [])
                   @ [NewDate, CountEvaluations (id_of u) (setHours0 (tz_offset io) (date_now io))]) @ [ReqJson]"
              | (c) p obj e where "json_body req = Inr p" "build_insert u p = Inr obj"
                "insert_evaluation io d obj = (Inl e, d)"
                "resp = json_response 500 (ErrorBody (message e))" "d' = d"
                "tr = ([GetUser (replace_first ''Bearer '' [] h), SelectConfig (id_of u)]
                   @ (if run_policy config = ''sampled'' then [MathRandom] else [])
                   @ [NewDate, CountEvaluations (id_of u) (setHours0 (tz_offset io) (date_now io))])
                   @ [ReqJson, InsertEvaluation obj]"
              | (e) p obj row where "json_body req = Inr p" "build_insert u p = Inr obj"
                "insert_evaluation io d obj = (Inr row, d')"
                "resp = json_response 201 (SuccessBody row)"
                "tr = ([GetUser (replace_first ''Bearer '' [] h), SelectConfig (id_of u)]
                   @ (if run_policy config = ''sampled'' then [MathRandom] else [])
                   @ [NewDate, CountEvaluations (id_of u) (setHours0 (tz_offset io) (date_now io))])
                   @ [ReqJson, InsertEvaluation obj]"
              by (elim disjE exE conjE) blast+
            then show P
            proof cases
              case a
              with s have "serve io d req = (json_response 500 (ErrorBody msg), d,
                 [GetUser (replace_first ''Bearer '' [] h), SelectConfig (id_of u)]
                 @ (if run_policy config = ''sampled'' then [MathRandom] else [])
                 @ [NewDate, CountEvaluations (id_of u) (setHours0 (tz_offset io) (date_now io)), ReqJson])"
                by simp
              from assms(7) [OF post h u Some gate q a(1) this] show P .
            next
              case b
              with s have "serve io d req = (catch_response e, d,
                 [GetUser (replace_first ''Bearer '' [] h), SelectConfig (id_of u)]
                 @ (if run_policy config = ''sampled'' then [MathRandom] else [])
                 @ [NewDate, CountEvaluations (id_of u) (setHours0 (tz_offset io) (date_now io)), ReqJson])"
                by simp
              from assms(8) [OF post h u Some gate q b(1,2) this] show P .
            next
              case c
              with s have "serve io d req = (json_response 500 (ErrorBody (message e)), d,
                 [GetUser (replace_first ''Bearer '' [] h), SelectConfig (id_of u)]
                 @ (if run_policy config = ''sampled'' then [MathRandom] else [])
                 @ [NewDate, CountEvaluations (id_of u) (setHours0 (tz_offset io) (date_now io)), ReqJson,
                    InsertEvaluation obj])"
                by simp
              from assms(9) [OF post h u Some gate q c(1,2,3) this] show P .
            next
              case e
              from insert_evaluation_Inr [OF e(3)]
              have d': "d' = d\<lparr>evaluations := evaluations d @ [row]\<rparr>" by simp
              with e s have "serve io d req = (json_response 201 (SuccessBody row),
                 d\<lparr>evaluations := evaluations d @ [row]\<rparr>,
                 [GetUser (replace_first ''Bearer '' [] h), SelectConfig (id_of u)]
                 @ (if run_policy config = ''sampled'' then [MathRandom] else [])
                 @ [NewDate, CountEvaluations (id_of u) (setHours0 (tz_offset io) (date_now io)), ReqJson,
                    InsertEvaluation obj])"
                by simp
              from assms(10) [OF post h u Some gate q e(1,2) e(3) [unfolded d'] this] show P .
            qed
          qed
        qed
      qed
    qed
  qed
qed

lemma body_unread_irrelevant:
  assumes "serve io d req = (resp, d', tr)" and "ReqJson \<notin> set tr"
  shows "d' = d \<and> serve io d (req\<lparr>json_body := b\<rparr>) = (resp, d', tr)"
proof (cases rule: serve_classify [of req io d])
  case options
  from serve_options [of "req\<lparr>json_body := b\<rparr>" io d] options assms show ?thesis by simp
next
  case missing
  from serve_missing_header [of "req\<lparr>json_body := b\<rparr>" io d] missing assms show ?thesis by simp
next
  case (unauthorized h)
  from serve_unauthorized [of "req\<lparr>json_body := b\<rparr>" h io d] unauthorized assms
  show ?thesis by simp
next
  case (no_config h u)
  from serve_no_config [of "req\<lparr>json_body := b\<rparr>" h io u d] no_config assms
  show ?thesis by simp
next
  case (skipped h u config)
  from serve_skip [of "req\<lparr>json_body := b\<rparr>" h io u d config] skipped assms
  show ?thesis by simp
next
  case (limited h u config)
  from serve_limit [of "req\<lparr>json_body := b\<rparr>" h io u d config] limited assms
  show ?thesis by simp
next
  case (unparsable h u config msg)
  with assms show ?thesis by auto
next
  case (null_payload h u config p e)
  with assms show ?thesis by auto
next
  case (refused h u config p obj e)
  with assms show ?thesis by auto
next
  case (stored h u config p obj row)
  with assms show ?thesis by auto
qed

lemma body_read_iff_gates:
  assumes "serve io d req = (resp, d', tr)"
  shows "ReqJson \<in> set tr \<longleftrightarrow>
     (\<exists>h u config. req_method req \<noteq> ''OPTIONS'' \<and> authorization req = Some h \<and> h \<noteq> []
        \<and> user (getUser io (replace_first ''Bearer '' [] h)) = Some u
        \<and> auth_error (getUser io (replace_first ''Bearer '' [] h)) = None
        \<and> select_config_single io d (id_of u) = Some config
        \<and> (run_policy config = ''sampled'' \<longrightarrow> shouldProcess (random io) config)
        \<and> \<not> limit_reached
              (count_evaluations io d (id_of u) (setHours0 (tz_offset io) (date_now io))) config)"
proof (cases rule: serve_classify [of req io d])
  case options
  with assms show ?thesis by auto
next
  case missing
  with assms show ?thesis by auto
next
  case (unauthorized h)
  with assms show ?thesis by auto
next
  case (no_config h u)
  with assms show ?thesis by auto
next
  case (skipped h u config)
  with assms show ?thesis by auto
next
  case (limited h u config)
  with assms show ?thesis by auto
next
  case (unparsable h u config msg)
  with assms have t: "tr = [GetUser (replace_first ''Bearer '' [] h), SelectConfig (id_of u)]
               @ (if run_policy config = ''sampled'' then [MathRandom] else [])
               @ [NewDate, CountEvaluations (id_of u) (setHours0 (tz_offset io) (date_now io)), ReqJson]
               @ []" by simp
  then have "ReqJson \<in> set tr" by simp
  moreover from t unparsable(1-8) have "\<exists>h u config. req_method req \<noteq> ''OPTIONS'' \<and> authorization req = Some h \<and> h \<noteq> []
        \<and> user (getUser io (replace_first ''Bearer '' [] h)) = Some u
        \<and> auth_error (getUser io (replace_first ''Bearer '' [] h)) = None
        \<and> select_config_single io d (id_of u) = Some config
        \<and> (run_policy config = ''sampled'' \<longrightarrow> shouldProcess (random io) config)
        \<and> \<not> limit_reached
              (count_evaluations io d (id_of u) (setHours0 (tz_offset io) (date_now io))) config" by blast
  ultimately show ?thesis by simp
next
  case (null_payload h u config p e)
  with assms have t: "tr = [GetUser (replace_first ''Bearer '' [] h), SelectConfig (id_of u)]
               @ (if run_policy config = ''sampled'' then [MathRandom] else [])
               @ [NewDate, CountEvaluations (id_of u) (setHours0 (tz_offset io) (date_now io)), ReqJson]
               @ []" by simp
  then have "ReqJson \<in> set tr" by simp
  moreover from t null_payload(1-8) have "\<exists>h u config. req_method req \<noteq> ''OPTIONS'' \<and> authorization req = Some h \<and> h \<noteq> []
        \<and> user (getUser io (replace_first ''Bearer '' [] h)) = Some u
        \<and> auth_error (getUser io (replace_first ''Bearer '' [] h)) = None
        \<and> select_config_single io d (id_of u) = Some config
        \<and> (run_policy config = ''sampled'' \<longrightarrow> shouldProcess (random io) config)
        \<and> \<not> limit_reached
              (count_evaluations io d (id_of u) (setHours0 (tz_offset io) (date_now io))) config" by blast
  ultimately show ?thesis by simp
next
  case (refused h u config p obj e)
  with assms have t: "tr = [GetUser (replace_first ''Bearer '' [] h), SelectConfig (id_of u)]
               @ (if run_policy config = ''sampled'' then [MathRandom] else [])
               @ [NewDate, CountEvaluations (id_of u) (setHours0 (tz_offset io) (date_now io)), ReqJson]
               @ [InsertEvaluation obj]" by simp
  then have "ReqJson \<in> set tr" by simp
  moreover from t refused(1-8) have "\<exists>h u config. req_method req \<noteq> ''OPTIONS'' \<and> authorization req = Some h \<and> h \<noteq> []
        \<and> user (getUser io (replace_first ''Bearer '' [] h)) = Some u
        \<and> auth_error (getUser io (replace_first ''Bearer '' [] h)) = None
        \<and> select_config_single io d (id_of u) = Some config
        \<and> (run_policy config = ''sampled'' \<longrightarrow> shouldProcess (random io) config)
        \<and> \<not> limit_reached
              (count_evaluations io d (id_of u) (setHours0 (tz_offset io) (date_now io))) config" by blast
  ultimately show ?thesis by simp
next
  case (stored h u config p obj row)
  with assms have t: "tr = [GetUser (replace_first ''Bearer '' [] h), SelectConfig (id_of u)]
               @ (if run_policy config = ''sampled'' then [MathRandom] else [])
               @ [NewDate, CountEvaluations (id_of u) (setHours0 (tz_offset io) (date_now io)), ReqJson]
               @ [InsertEvaluation obj]" by simp
  then have "ReqJson \<in> set tr" by simp
  moreover from t stored(1-8) have "\<exists>h u config. req_method req \<noteq> ''OPTIONS'' \<and> authorization req = Some h \<and> h \<noteq> []
        \<and> user (getUser io (replace_first ''Bearer '' [] h)) = Some u
        \<and> auth_error (getUser io (replace_first ''Bearer '' [] h)) = None
        \<and> select_config_single io d (id_of u) = Some config
        \<and> (run_policy config = ''sampled'' \<longrightarrow> shouldProcess (random io) config)
        \<and> \<not> limit_reached
              (count_evaluations io d (id_of u) (setHours0 (tz_offset io) (date_now io))) config" by blast
  ultimately show ?thesis by simp
qed

lemma body_read_trace:
  assumes "serve io d req = (resp, d', tr)"
  shows "ReqJson \<in> set tr \<longleftrightarrow>
     (\<exists>h u config. req_method req \<noteq> ''OPTIONS'' \<and> authorization req = Some h \<and> h \<noteq> []
        \<and> user (getUser io (replace_first ''Bearer '' [] h)) = Some u
        \<and> auth_error (getUser io (replace_first ''Bearer '' [] h)) = None
        \<and> select_config_single io d (id_of u) = Some config
        \<and> (run_policy config = ''sampled'' \<longrightarrow> shouldProcess (random io) config)
        \<and> \<not> limit_reached
              (count_evaluations io d (id_of u) (setHours0 (tz_offset io) (date_now io))) config
        \<and> (\<exists>rest. tr = [GetUser (replace_first ''Bearer '' [] h), SelectConfig (id_of u)]
               @ (if run_policy config = ''sampled'' then [MathRandom] else [])
               @ [NewDate, CountEvaluations (id_of u) (setHours0 (tz_offset io) (date_now io)), ReqJson]
               @ rest))"
proof (cases rule: serve_classify [of req io d])
  case options
  with assms show ?thesis by auto
next
  case missing
  with assms show ?thesis by auto
next
  case (unauthorized h)
  with assms show ?thesis by auto
next
  case (no_config h u)
  with assms show ?thesis by auto
next
  case (skipped h u config)
  with assms show ?thesis by auto
next
  case (limited h u config)
  with assms show ?thesis by auto
next
  case (unparsable h u config msg)
  with assms have t: "tr = [GetUser (replace_first ''Bearer '' [] h), SelectConfig (id_of u)]
               @ (if run_policy config = ''sampled'' then [MathRandom] else [])
               @ [NewDate, CountEvaluations (id_of u) (setHours0 (tz_offset io) (date_now io)), ReqJson]
               @ []" by simp
  then have "ReqJson \<in> set tr" by simp
  moreover from t unparsable(1-8) have "\<exists>h u config. req_method req \<noteq> ''OPTIONS'' \<and> authorization req = Some h \<and> h \<noteq> []
        \<and> user (getUser io (replace_first ''Bearer '' [] h)) = Some u
        \<and> auth_error (getUser io (replace_first ''Bearer '' [] h)) = None
        \<and> select_config_single io d (id_of u) = Some config
        \<and> (run_policy config = ''sampled'' \<longrightarrow> shouldProcess (random io) config)
        \<and> \<not> limit_reached
              (count_evaluations io d (id_of u) (setHours0 (tz_offset io) (date_now io))) config
        \<and> (\<exists>rest. tr = [GetUser (replace_first ''Bearer '' [] h), SelectConfig (id_of u)]
               @ (if run_policy config = ''sampled'' then [MathRandom] else [])
               @ [NewDate, CountEvaluations (id_of u) (setHours0 (tz_offset io) (date_now io)), ReqJson]
               @ rest)" by blast
  ultimately show ?thesis by simp
next
  case (null_payload h u config p e)
  with assms have t: "tr = [GetUser (replace_first ''Bearer '' [] h), SelectConfig (id_of u)]
               @ (if run_policy config = ''sampled'' then [MathRandom] else [])
               @ [NewDate, CountEvaluations (id_of u) (setHours0 (tz_offset io) (date_now io)), ReqJson]
               @ []" by simp
  then have "ReqJson \<in> set tr" by simp
  moreover from t null_payload(1-8) have "\<exists>h u config. req_method req \<noteq> ''OPTIONS'' \<and> authorization req = Some h \<and> h \<noteq> []
        \<and> user (getUser io (replace_first ''Bearer '' [] h)) = Some u
        \<and> auth_error (getUser io (replace_first ''Bearer '' [] h)) = None
        \<and> select_config_single io d (id_of u) = Some config
        \<and> (run_policy config = ''sampled'' \<longrightarrow> shouldProcess (random io) config)
        \<and> \<not> limit_reached
              (count_evaluations io d (id_of u) (setHours0 (tz_offset io) (date_now io))) config
        \<and> (\<exists>rest. tr = [GetUser (replace_first ''Bearer '' [] h), SelectConfig (id_of u)]
               @ (if run_policy config = ''sampled'' then [MathRandom] else [])
               @ [NewDate, CountEvaluations (id_of u) (setHours0 (tz_offset io) (date_now io)), ReqJson]
               @ rest)" by blast
  ultimately show ?thesis by simp
next
  case (refused h u config p obj e)
  with assms have t: "tr = [GetUser (replace_first ''Bearer '' [] h), SelectConfig (id_of u)]
               @ (if run_policy config = ''sampled'' then [MathRandom] else [])
               @ [NewDate, CountEvaluations (id_of u) (setHours0 (tz_offset io) (date_now io)), ReqJson]
               @ [InsertEvaluation obj]" by simp
  then have "ReqJson \<in> set tr" by simp
  moreover from t refused(1-8) have "\<exists>h u config. req_method req \<noteq> ''OPTIONS'' \<and> authorization req = Some h \<and> h \<noteq> []
        \<and> user (getUser io (replace_first ''Bearer '' [] h)) = Some u
        \<and> auth_error (getUser io (replace_first ''Bearer '' [] h)) = None
        \<and> select_config_single io d (id_of u) = Some config
        \<and> (run_policy config = ''sampled'' \<longrightarrow> shouldProcess (random io) config)
        \<and> \<not> limit_reached
              (count_evaluations io d (id_of u) (setHours0 (tz_offset io) (date_now io))) config
        \<and> (\<exists>rest. tr = [GetUser (replace_first ''Bearer '' [] h), SelectConfig (id_of u)]
               @ (if run_policy config = ''sampled'' then [MathRandom] else [])
               @ [NewDate, CountEvaluations (id_of u) (setHours0 (tz_offset io) (date_now io)), ReqJson]
               @ rest)" by blast
  ultimately show ?thesis by simp
next
  case (stored h u config p obj row)
  with assms have t: "tr = [GetUser (replace_first ''Bearer '' [] h), SelectConfig (id_of u)]
               @ (if run_policy config = ''sampled'' then [MathRandom] else [])
               @ [NewDate, CountEvaluations (id_of u) (setHours0 (tz_offset io) (date_now io)), ReqJson]
               @ [InsertEvaluation obj]" by simp
  then have "ReqJson \<in> set tr" by simp
  moreover from t stored(1-8) have "\<exists>h u config. req_method req \<noteq> ''OPTIONS'' \<and> authorization req = Some h \<and> h \<noteq> []
        \<and> user (getUser io (replace_first ''Bearer '' [] h)) = Some u
        \<and> auth_error (getUser io (replace_first ''Bearer '' [] h)) = None
        \<and> select_config_single io d (id_of u) = Some config
        \<and> (run_policy config = ''sampled'' \<longrightarrow> shouldProcess (random io) config)
        \<and> \<not> limit_reached
              (count_evaluations io d (id_of u) (setHours0 (tz_offset io) (date_now io))) config
        \<and> (\<exists>rest. tr = [GetUser (replace_first ''Bearer '' [] h), SelectConfig (id_of u)]
               @ (if run_policy config = ''sampled'' then [MathRandom] else [])
               @ [NewDate, CountEvaluations (id_of u) (setHours0 (tz_offset io) (date_now io)), ReqJson]
               @ rest)" by blast
  ultimately show ?thesis by simp
qed

lemma body_read_status:
  assumes "serve io d req = (resp, d', tr)"
  shows "ReqJson \<in> set tr \<longleftrightarrow> status resp = 201 \<or> status resp = 500"
  by (cases rule: serve_classify [of req io d]) (use assms in auto)

lemma unparsable_body:
  assumes "serve io d req = (resp, d', tr)" and "ReqJson \<in> set tr" and "json_body req = Inl msg"
  shows "resp = json_response 500 (ErrorBody msg) \<and> d' = d \<and> last tr = ReqJson"
  by (cases rule: serve_classify [of req io d]) (use assms in auto)

lemma insert_evaluation_ok:
  "insert_io_error io = None \<Longrightarrow> new_row io obj = Inr row \<Longrightarrow>
   eval_id row \<notin> set (map eval_id (evaluations d)) \<Longrightarrow>
   insert_evaluation io d obj = (Inr row, d\<lparr>evaluations := evaluations d @ [row]\<rparr>)"
  by (simp add: insert_evaluation_def)

lemma persist_ok:
  "json_body req = Inr p \<Longrightarrow> build_insert u p = Inr obj \<Longrightarrow>
   insert_evaluation io d obj = (Inr row, d1) \<Longrightarrow>
   persist io d u req tr
     = (Inr (json_response 201 (SuccessBody row)), d1, tr @ [ReqJson, InsertEvaluation obj])"
  by (simp add: persist_def)

lemma new_row_other_io:
  "new_row io1 obj = Inr row \<Longrightarrow>
   new_row io2 obj = Inr (row\<lparr>eval_id := gen_random_uuid io2, created_at := db_now io2\<rparr>)"
  by (auto simp: new_row_def bind_err_def split: sum.splits)

lemma round2_zero [simp]: "round2 0 = 0"
  by (simp add: round2_def floor_eq_iff)

lemma serve_accepted_score0:
  "serve io0 (db0 (config0 ''always'' 100 2) [row0 ''e1'' 259200000]) (req0 (Inr payload_score0))
     = (json_response 201 (SuccessBody ((row0 ''e9'' 259205001)\<lparr>score := Some 0\<rparr>)),
        db0 (config0 ''always'' 100 2)
          [row0 ''e1'' 259200000, (row0 ''e9'' 259205001)\<lparr>score := Some 0\<rparr>],
        [GetUser ''tok1'', SelectConfig ''u1'', NewDate, CountEvaluations ''u1'' 259200000, ReqJson,
         InsertEvaluation
           \<lparr> ins_user_id = ''u1'', ins_interaction_id = Some (JStr ''i1''),
             ins_prompt = Some (JStr ''p''), ins_response = Some (JStr ''r''),
             ins_score = Some (JNum 0), ins_latency_ms = Some (JNum 12), ins_flags = Some (JArr []),
             ins_pii_tokens_redacted = Some (JNum 0) \<rparr>])"
  by (simp add: handler_defs select_config_single_def count_evaluations_def matching_rows_def
      insert_evaluation_def new_row_def int4_value_def fixture_defs)

lemma payload0_props:
  "read_prop payload0 ''flags'' = Inr None" "read_prop payload0 ''pii_tokens_redacted'' = Inr None"
  "read_prop payload0 ''score'' = Inr None"
  "read_prop payload0 ''user_id'' = Inr (Some (JStr ''intruder''))"
  "read_prop payload0 ''created_at'' = Inr (Some (JStr ''1999-01-01T00:00:00Z''))"
  "read_prop payload_score0 ''score'' = Inr (Some (JNum 0))"
  by (simp_all add: payload0_def payload_score0_def)

lemma persist_unparsable:
  "json_body req = Inl msg \<Longrightarrow> persist io d u req tr = (Inl (JsError msg), d, tr @ [ReqJson])"
  by (simp add: persist_def)

lemma persist_thrown:
  "json_body req = Inr p \<Longrightarrow> build_insert u p = Inl e \<Longrightarrow>
   persist io d u req tr = (Inl e, d, tr @ [ReqJson])"
  by (simp add: persist_def)

lemma persist_refused:
  "json_body req = Inr p \<Longrightarrow> build_insert u p = Inr obj \<Longrightarrow>
   fst (insert_evaluation io d obj) = Inl e \<Longrightarrow>
   persist io d u req tr
     = (Inr (json_response 500 (ErrorBody (message e))), d, tr @ [ReqJson, InsertEvaluation obj])"
  by (cases "insert_evaluation io d obj") (auto simp: persist_def dest: insert_evaluation_Inl)

lemma path_defs:
  "limit_reached None config = False"
  "limit_reached (Some c) config = (max_eval_per_day config \<le> c)"
  by (simp_all add: limit_reached_def)

lemmas path_eval = limit_reached_def shouldProcess_def setHours0_def build_insert_def bind_err_def
  js_or_def catch_response_def

subsection \<open>The quota gate\<close>

text \<open>
  C1. Quota boundary. Take a call that is not a preflight request, whose bearer token the
  identity provider resolves to a user \<open>u\<close>, whose configuration \<open>config\<close> is found, and that
  reaches the quota gate (under the policy \<open>sampled\<close> the draw was accepted), and let the
  count read answer \<open>c\<close>. If \<open>c\<close> equals \<open>max_eval_per_day\<close>, the response is 429 with
  the error "Daily evaluation limit reached", the store is unchanged, the body is not read
  and nothing is inserted. If \<open>c\<close> is \<open>max_eval_per_day - 1\<close>, the call passes the gate (no
  429, the body is read), and whenever the body parses and the insert returns a row, the
  response is 201 carrying that row and the store is the one the insert returned.
\<close>

theorem quota_boundary:
  assumes "req_method req \<noteq> ''OPTIONS''"
    and "authorization req = Some h" and "h \<noteq> []"
    and "user (getUser io (replace_first ''Bearer '' [] h)) = Some u"
    and "auth_error (getUser io (replace_first ''Bearer '' [] h)) = None"
    and "select_config_single io d (id_of u) = Some config"
    and "run_policy config = ''sampled'' \<longrightarrow> shouldProcess (random io) config"
    and "count_evaluations io d (id_of u) (setHours0 (tz_offset io) (date_now io)) = Some c"
    and "serve io d req = (resp, d', tr)"
  shows "(c = max_eval_per_day config \<longrightarrow>
           resp = json_response 429 (ErrorBody ''Daily evaluation limit reached'') \<and> d' = d
           \<and> ReqJson \<notin> set tr \<and> (\<forall>obj. InsertEvaluation obj \<notin> set tr))
       \<and> (c = max_eval_per_day config - 1 \<longrightarrow>
           status resp \<noteq> 429 \<and> ReqJson \<in> set tr
           \<and> (\<forall>payload obj row d1. json_body req = Inr payload \<and> build_insert u payload = Inr obj
                  \<and> insert_evaluation io d obj = (Inr row, d1)
                \<longrightarrow> resp = json_response 201 (SuccessBody row) \<and> d' = d1))"
proof (intro conjI impI)
  assume "c = max_eval_per_day config"
  with assms(8) have "limit_reached
      (count_evaluations io d (id_of u) (setHours0 (tz_offset io) (date_now io))) config"
    by (simp add: limit_reached_def)
  from serve_limit [OF assms(1-7) this] assms(9)
  have "resp = json_response 429 (ErrorBody ''Daily evaluation limit reached'') \<and> d' = d
     \<and> tr = [GetUser (replace_first ''Bearer '' [] h), SelectConfig (id_of u)]
            @ (if run_policy config = ''sampled'' then [MathRandom] else [])
            @ [NewDate, CountEvaluations (id_of u) (setHours0 (tz_offset io) (date_now io))]"
    by simp
  then show "resp = json_response 429 (ErrorBody ''Daily evaluation limit reached'')" "d' = d"
    "ReqJson \<notin> set tr" "\<forall>obj. InsertEvaluation obj \<notin> set tr"
    by simp_all
next
  assume "c = max_eval_per_day config - 1"
  with assms(8) have "\<not> limit_reached
      (count_evaluations io d (id_of u) (setHours0 (tz_offset io) (date_now io))) config"
    by (simp add: limit_reached_def)
  from serve_pass [OF assms(1-7) this] assms(9)
  have p: "(case persist io d u req
                  ([GetUser (replace_first ''Bearer '' [] h), SelectConfig (id_of u)]
                   @ (if run_policy config = ''sampled'' then [MathRandom] else [])
                   @ [NewDate, CountEvaluations (id_of u) (setHours0 (tz_offset io) (date_now io))]) of
              (Inl error, d', tr) \<Rightarrow> (catch_response error, d', tr)
            | (Inr resp, d', tr) \<Rightarrow> (resp, d', tr)) = (resp, d', tr)"
    by simp
  from status_persist [OF p] show "status resp \<noteq> 429" "ReqJson \<in> set tr" by auto
  from serve_persist_cases [OF p]
  show "\<forall>payload obj row d1. json_body req = Inr payload \<and> build_insert u payload = Inr obj
                  \<and> insert_evaluation io d obj = (Inr row, d1)
                \<longrightarrow> resp = json_response 201 (SuccessBody row) \<and> d' = d1"
    by (elim disjE exE conjE) simp_all
qed

text \<open>The limit is 2: with two rows counted the call is refused, with one it is accepted.\<close>

theorem quota_boundary_witness:
  "count_evaluations io0
      (db0 (config0 ''sampled'' 100 2) [row0 ''e1'' 259200000, row0 ''e2'' 259204000]) ''u1''
      (setHours0 (tz_offset io0) (date_now io0)) = Some 2
   \<and> serve io0 (db0 (config0 ''sampled'' 100 2) [row0 ''e1'' 259200000, row0 ''e2'' 259204000])
        (req0 (Inr payload0))
      = (json_response 429 (ErrorBody ''Daily evaluation limit reached''),
         db0 (config0 ''sampled'' 100 2) [row0 ''e1'' 259200000, row0 ''e2'' 259204000],
         [GetUser ''tok1'', SelectConfig ''u1'', MathRandom, NewDate, CountEvaluations ''u1'' 259200000])
   \<and> count_evaluations io0 (db0 (config0 ''sampled'' 100 2) [row0 ''e1'' 259200000]) ''u1''
      (setHours0 (tz_offset io0) (date_now io0)) = Some 1
   \<and> fst (serve io0 (db0 (config0 ''sampled'' 100 2) [row0 ''e1'' 259200000]) (req0 (Inr payload0)))
      = json_response 201 (SuccessBody (row0 ''e9'' 259205001))
   \<and> evaluations (fst (snd (serve io0 (db0 (config0 ''sampled'' 100 2) [row0 ''e1'' 259200000])
        (req0 (Inr payload0)))))
      = [row0 ''e1'' 259200000, row0 ''e9'' 259205001]"
proof -
  let ?c = "config0 ''sampled'' 100 2"
  let ?d2 = "db0 ?c [row0 ''e1'' 259200000, row0 ''e2'' 259204000]"
  let ?d1 = "db0 ?c [row0 ''e1'' 259200000]"
  let ?req = "req0 (Inr payload0)"
  have m: "req_method ?req \<noteq> ''OPTIONS''" and a: "authorization ?req = Some ''Bearer tok1''"
    and ne: "''Bearer tok1'' \<noteq> []" and b: "json_body ?req = Inr payload0"
    by (simp_all add: req0_def)
  have u: "user (getUser io0 (replace_first ''Bearer '' [] ''Bearer tok1'')) = Some (AuthUser ''u1'')"
    and e: "auth_error (getUser io0 (replace_first ''Bearer '' [] ''Bearer tok1'')) = None"
    by (simp_all add: io0_def idp_def)
  have c2: "select_config_single io0 ?d2 (id_of (AuthUser ''u1'')) = Some ?c"
    and c1: "select_config_single io0 ?d1 (id_of (AuthUser ''u1'')) = Some ?c"
    by (simp_all add: select_config_single_def io0_def db0_def config0_def)
  have s: "run_policy ?c = ''sampled'' \<longrightarrow> shouldProcess (random io0) ?c"
    by (simp add: shouldProcess_def io0_def config0_def)
  have k2: "count_evaluations io0 ?d2 (id_of (AuthUser ''u1'')) (setHours0 (tz_offset io0) (date_now io0)) = Some 2"
    and k1: "count_evaluations io0 ?d1 (id_of (AuthUser ''u1'')) (setHours0 (tz_offset io0) (date_now io0)) = Some 1"
    by (simp_all add: setHours0_def count_evaluations_def matching_rows_def db0_def row0_def io0_def)
  have lim: "max_eval_per_day ?c = 2" by (simp add: config0_def)
  obtain r2 d2' t2 where s2: "serve io0 ?d2 ?req = (r2, d2', t2)"
    by (cases "serve io0 ?d2 ?req") auto
  obtain r1 d1' t1 where s1: "serve io0 ?d1 ?req = (r1, d1', t1)"
    by (cases "serve io0 ?d1 ?req") auto
  have ins: "insert_evaluation io0 ?d1
     \<lparr> ins_user_id = ''u1'', ins_interaction_id = Some (JStr ''i1''),
       ins_prompt = Some (JStr ''p''), ins_response = Some (JStr ''r''), ins_score = None,
       ins_latency_ms = Some (JNum 12), ins_flags = Some (JArr []),
       ins_pii_tokens_redacted = Some (JNum 0) \<rparr>
     = (Inr (row0 ''e9'' 259205001), ?d1\<lparr>evaluations := evaluations ?d1 @ [row0 ''e9'' 259205001]\<rparr>)"
    using stored0 [of io0 ?d1] by (simp add: io0_def db0_def row0_def)
  from quota_boundary [OF m a ne u e c2 s k2 s2] lim
  have "r2 = json_response 429 (ErrorBody ''Daily evaluation limit reached'') \<and> d2' = ?d2" by simp
  moreover from quota_boundary [OF m a ne u e c1 s k1 s1] lim b insert0 ins
  have "r1 = json_response 201 (SuccessBody (row0 ''e9'' 259205001))
      \<and> d1' = ?d1\<lparr>evaluations := evaluations ?d1 @ [row0 ''e9'' 259205001]\<rparr>"
    by simp
  moreover have "t2 = [GetUser ''tok1'', SelectConfig ''u1'', MathRandom, NewDate, CountEvaluations ''u1'' 259200000]"
    using serve_limit [OF m a ne u e c2 s] k2 lim s2 by (simp add: limit_reached_def setHours0_def io0_def config0_def)
  ultimately show ?thesis using s1 s2 k1 k2 by (simp add: db0_def)
qed

subsection \<open>The sampling gate\<close>



subsection \<open>A skipped call changes nothing\<close>

text \<open>
  C3. Skipped is a no-op. For an authorised call whose configuration has the policy
  \<open>sampled\<close> and whose scaled draw is not below \<open>sample_rate_pct\<close>, the response is 200
  with the message "Evaluation skipped due to sampling", the store is returned unchanged,
  and the handler made exactly three calls: the identity check, the configuration read
  and the draw. The rows are neither counted nor inserted.
\<close>

theorem skipped_is_noop:
  assumes "req_method req \<noteq> ''OPTIONS''"
    and "authorization req = Some h" and "h \<noteq> []"
    and "user (getUser io (replace_first ''Bearer '' [] h)) = Some u"
    and "auth_error (getUser io (replace_first ''Bearer '' [] h)) = None"
    and "select_config_single io d (id_of u) = Some config"
    and "run_policy config = ''sampled''"
    and "\<not> times100 (random io) < of_int (sample_rate_pct config)"
    and "serve io d req = (resp, d', tr)"
  shows "resp = json_response 200 (MessageBody ''Evaluation skipped due to sampling'')
       \<and> status resp = 200 \<and> d' = d
       \<and> tr = [GetUser (replace_first ''Bearer '' [] h), SelectConfig (id_of u), MathRandom]
       \<and> (\<forall>uid since. CountEvaluations uid since \<notin> set tr)
       \<and> (\<forall>obj. InsertEvaluation obj \<notin> set tr)"
proof -
  from assms(8) have "\<not> shouldProcess (random io) config"
    by (simp add: shouldProcess_def)
  from serve_skip [OF assms(1-7) this] assms(9)
  have "resp = json_response 200 (MessageBody ''Evaluation skipped due to sampling'') \<and> d' = d
       \<and> tr = [GetUser (replace_first ''Bearer '' [] h), SelectConfig (id_of u), MathRandom]"
    by simp
  then show ?thesis by simp
qed

text \<open>A draw of 0.5 at rate 50 is not below the rate: the call is skipped.\<close>

theorem skipped_is_noop_witness:
  "run_policy (config0 ''sampled'' 50 2) = ''sampled''
   \<and> \<not> times100 (random io0) < of_int (sample_rate_pct (config0 ''sampled'' 50 2))
   \<and> serve io0 (db0 (config0 ''sampled'' 50 2) [row0 ''e1'' 259200000]) (req0 (Inr payload0))
      = (json_response 200 (MessageBody ''Evaluation skipped due to sampling''),
         db0 (config0 ''sampled'' 50 2) [row0 ''e1'' 259200000],
         [GetUser ''tok1'', SelectConfig ''u1'', MathRandom])"
proof -
  let ?d = "db0 (config0 ''sampled'' 50 2) [row0 ''e1'' 259200000]"
  let ?req = "req0 (Inr payload0)"
  have io: "getUser io0 = idp" "config_read_error io0 = None" by (simp_all add: io0_def)
  have c: "run_policy (config0 ''sampled'' 50 2) = ''sampled''"
    "\<not> times100 (random io0) < of_int (sample_rate_pct (config0 ''sampled'' 50 2))"
    by (simp_all add: config0_def io0_def)
  obtain r d' t where s: "serve io0 ?d ?req = (r, d', t)" by (cases "serve io0 ?d ?req") auto
  from skipped_is_noop [OF req0_simps(1,2) _ idp_tok1 [OF io(1)] config_found0 [OF io(2)] c s]
  have "r = json_response 200 (MessageBody ''Evaluation skipped due to sampling'')" "d' = ?d"
    "t = [GetUser ''tok1'', SelectConfig ''u1'', MathRandom]"
    by simp_all
  with s c show ?thesis by simp
qed

subsection \<open>The record of an accepted call\<close>

text \<open>
  C4. Record construction. Whenever the handler answers 201, the request carried a bearer
  token that the identity provider resolved to a user \<open>u\<close>, the body parsed to a payload,
  and exactly one row was appended, the one returned in the response. Its \<open>user_id\<close> is
  the identifier of \<open>u\<close> and its \<open>id\<close> and \<open>created_at\<close> are the store's \<open>gen_random_uuid()\<close>
  and \<open>now()\<close>, whatever the payload contains. If the payload has no \<open>flags\<close> the row has
  the empty list; if it has no \<open>pii_tokens_redacted\<close> the row has 0; if it has no \<open>score\<close>
  the row's score is \<open>NULL\<close>, and if its score is the number 0 the row's score is 0.
\<close>

theorem accepted_record:
  assumes "serve io d req = (resp, d', tr)" and "status resp = 201"
  shows "\<exists>h u payload row.
           authorization req = Some h
         \<and> user (getUser io (replace_first ''Bearer '' [] h)) = Some u
         \<and> auth_error (getUser io (replace_first ''Bearer '' [] h)) = None
         \<and> json_body req = Inr payload
         \<and> resp = json_response 201 (SuccessBody row)
         \<and> d' = d\<lparr>evaluations := evaluations d @ [row]\<rparr>
         \<and> user_id row = id_of u
         \<and> eval_id row = gen_random_uuid io
         \<and> created_at row = db_now io
         \<and> (read_prop payload ''flags'' = Inr None \<longrightarrow> flags row = Some [])
         \<and> (read_prop payload ''pii_tokens_redacted'' = Inr None \<longrightarrow> pii_tokens_redacted row = Some 0)
         \<and> (read_prop payload ''score'' = Inr None \<longrightarrow> score row = None)
         \<and> (read_prop payload ''score'' = Inr (Some (JNum 0)) \<longrightarrow> score row = Some 0)"
proof (cases rule: serve_classify [of req io d])
  case (stored h u config p obj row)
  from insert_evaluation_Inr [OF stored(11)] have nr: "new_row io obj = Inr row" by simp
  note cols = new_row_Inr [OF nr] and ins = build_insert_Inr [OF stored(10)]
  from ins obtain f n where f: "read_prop p ''flags'' = Inr f" "ins_flags obj = Some (js_or f (JArr []))"
    and n: "read_prop p ''pii_tokens_redacted'' = Inr n"
      "ins_pii_tokens_redacted obj = Some (js_or n (JNum 0))"
    by blast
  have a: "user_id row = id_of u" "eval_id row = gen_random_uuid io" "created_at row = db_now io"
    using cols ins by simp_all
  have b: "read_prop p ''flags'' = Inr None \<longrightarrow> flags row = Some []"
    using cols f by (auto simp: js_or_def)
  have c: "read_prop p ''pii_tokens_redacted'' = Inr None \<longrightarrow> pii_tokens_redacted row = Some 0"
    using cols n by (auto simp: js_or_def bind_err_def int4_value_def)
  have e: "read_prop p ''score'' = Inr None \<longrightarrow> score row = None"
    using cols ins by auto
  have g: "read_prop p ''score'' = Inr (Some (JNum 0)) \<longrightarrow> score row = Some 0"
    using cols ins by auto
  from stored(12) assms(1)
  have "resp = json_response 201 (SuccessBody row)" "d' = d\<lparr>evaluations := evaluations d @ [row]\<rparr>"
    by simp_all
  with stored(2,4,5,9) a b c e g show ?thesis by blast
qed (use assms in auto)

text \<open>A payload that names another \<open>user_id\<close> and an old \<open>created_at\<close> and has no score, flags or count; and a payload whose score is 0.\<close>

theorem accepted_record_witness:
  "status (fst (serve io0 (db0 (config0 ''always'' 100 2) [row0 ''e1'' 259200000])
      (req0 (Inr payload0)))) = 201
   \<and> read_prop payload0 ''user_id'' = Inr (Some (JStr ''intruder''))
   \<and> read_prop payload0 ''score'' = Inr None
   \<and> (\<exists>row. fst (serve io0 (db0 (config0 ''always'' 100 2) [row0 ''e1'' 259200000])
                 (req0 (Inr payload0))) = json_response 201 (SuccessBody row)
          \<and> user_id row = ''u1'' \<and> created_at row = db_now io0 \<and> flags row = Some []
          \<and> pii_tokens_redacted row = Some 0 \<and> score row = None)
   \<and> status (fst (serve io0 (db0 (config0 ''always'' 100 2) [row0 ''e1'' 259200000])
      (req0 (Inr payload_score0)))) = 201
   \<and> read_prop payload_score0 ''score'' = Inr (Some (JNum 0))
   \<and> (\<exists>row. fst (serve io0 (db0 (config0 ''always'' 100 2) [row0 ''e1'' 259200000])
                 (req0 (Inr payload_score0))) = json_response 201 (SuccessBody row)
          \<and> score row = Some 0)"
proof -
  let ?d = "db0 (config0 ''always'' 100 2) [row0 ''e1'' 259200000]"
  obtain r1 d1 t1 where s1: "serve io0 ?d (req0 (Inr payload0)) = (r1, d1, t1)"
    by (cases "serve io0 ?d (req0 (Inr payload0))") auto
  obtain r2 d2 t2 where s2: "serve io0 ?d (req0 (Inr payload_score0)) = (r2, d2, t2)"
    by (cases "serve io0 ?d (req0 (Inr payload_score0))") auto
  from s1 serve_accepted0 have st1: "status r1 = 201" by auto
  from s2 serve_accepted_score0 have st2: "status r2 = 201" by auto
  from accepted_record [OF s1 st1]
  obtain h u p row where a: "authorization (req0 (Inr payload0)) = Some h"
    "user (getUser io0 (replace_first ''Bearer '' [] h)) = Some u"
    "json_body (req0 (Inr payload0)) = Inr p"
    "r1 = json_response 201 (SuccessBody row)" "user_id row = id_of u"
    "created_at row = db_now io0"
    "read_prop p ''flags'' = Inr None \<longrightarrow> flags row = Some []"
    "read_prop p ''pii_tokens_redacted'' = Inr None \<longrightarrow> pii_tokens_redacted row = Some 0"
    "read_prop p ''score'' = Inr None \<longrightarrow> score row = None"
    by blast
  from a(1) have h: "h = ''Bearer tok1''" by simp
  from a(2) have u: "u = AuthUser ''u1''" unfolding h by (simp add: io0_def idp_def)
  from a(3) have p: "p = payload0" by simp
  from a(4-9) payload0_props
  have one: "r1 = json_response 201 (SuccessBody row) \<and> user_id row = ''u1''
      \<and> created_at row = db_now io0 \<and> flags row = Some [] \<and> pii_tokens_redacted row = Some 0
      \<and> score row = None"
    unfolding u p by simp
  from accepted_record [OF s2 st2]
  obtain p' row' where b: "json_body (req0 (Inr payload_score0)) = Inr p'"
    "r2 = json_response 201 (SuccessBody row')"
    "read_prop p' ''score'' = Inr (Some (JNum 0)) \<longrightarrow> score row' = Some 0"
    by blast
  from b(1) have "p' = payload_score0" by simp
  with b(2,3) payload0_props have two: "r2 = json_response 201 (SuccessBody row') \<and> score row' = Some 0"
    by simp
  from one two st1 st2 s1 s2 payload0_props show ?thesis by auto
qed

subsection \<open>The window of the count\<close>

text \<open>
  C5 (as amended). The count the handler reads is the number of the user's rows with
  \<open>created_at\<close> at or after the start of today, with no upper bound: when the read
  succeeds, it is the number of the user's rows in \<open>[startOfToday, now)\<close> plus the number
  of the user's rows dated at or after \<open>now\<close>.
\<close>

theorem count_window_has_no_upper_bound:
  assumes "count_read_error io = None"
  shows "count_evaluations io d uid (setHours0 (tz_offset io) (date_now io))
     = Some (countToday_spec (evaluations d) uid (setHours0 (tz_offset io) (date_now io)) (date_now io)
             + int (length (filter (\<lambda>r. user_id r = uid \<and> date_now io \<le> created_at r)
                                    (evaluations d))))"
  using assms count_split [OF setHours0_le]
  by (simp add: count_evaluations_def)

text \<open>Four rows: one before today, two in \<open>[startOfToday, now)\<close>, one at \<open>now\<close>. The count is 3.\<close>

theorem count_window_has_no_upper_bound_witness:
  "count_read_error io0 = None
   \<and> count_evaluations io0 (db0 (config0 ''always'' 100 2)
         [row0 ''e0'' 259199999, row0 ''e1'' 259200000, row0 ''e2'' 259204999, row0 ''e3'' 259205000])
        ''u1'' (setHours0 (tz_offset io0) (date_now io0))
      = Some (2 + 1)"
proof -
  let ?rows = "[row0 ''e0'' 259199999, row0 ''e1'' 259200000, row0 ''e2'' 259204999, row0 ''e3'' 259205000]"
  have e: "count_read_error io0 = None" by (simp add: io0_def)
  have "countToday_spec ?rows ''u1'' (setHours0 (tz_offset io0) (date_now io0)) (date_now io0) = 2"
    "int (length (filter (\<lambda>r. user_id r = ''u1'' \<and> date_now io0 \<le> created_at r) ?rows)) = 1"
    by (simp_all add: countToday_spec_def setHours0_def io0_def row0_def)
  with count_window_has_no_upper_bound [OF e, of "db0 (config0 ''always'' 100 2) ?rows" "''u1''"] e
  show ?thesis by (simp add: db0_def)
qed

text \<open>One row dated tomorrow: the window \<open>[startOfToday, now)\<close> holds no row, yet the count is 1 and, at a limit of 1, the call is refused.\<close>

theorem count_window_counterexample:
  "count_evaluations io0 (db0 (config0 ''always'' 100 1) [row0 ''e3'' 345605000]) ''u1''
      (setHours0 (tz_offset io0) (date_now io0)) = Some 1
   \<and> countToday_spec [row0 ''e3'' 345605000] ''u1''
        (setHours0 (tz_offset io0) (date_now io0)) (date_now io0) = 0
   \<and> status (fst (serve io0 (db0 (config0 ''always'' 100 1) [row0 ''e3'' 345605000])
        (req0 (Inr payload0)))) = 429"
  by (simp add: handler_defs store_defs fixture_defs countToday_spec_def)

subsection \<open>A failed count read\<close>

text \<open>
  C6 (as amended). A count is never negative, and the count read answers \<open>null\<close>
  exactly when the store request fails. The handler does not surface that failure: for
  an authorised, configured call that reaches the quota gate and whose count read fails,
  the comparison with the limit is skipped, the response is never 429, the body is read,
  and whenever the body parses and the insert returns a row the response is 201 with
  that row.
\<close>

theorem count_failure_lets_the_call_through:
  assumes "req_method req \<noteq> ''OPTIONS''"
    and "authorization req = Some h" and "h \<noteq> []"
    and "user (getUser io (replace_first ''Bearer '' [] h)) = Some u"
    and "auth_error (getUser io (replace_first ''Bearer '' [] h)) = None"
    and "select_config_single io d (id_of u) = Some config"
    and "run_policy config = ''sampled'' \<longrightarrow> shouldProcess (random io) config"
    and "count_read_error io = Some e"
    and "serve io d req = (resp, d', tr)"
  shows "count_evaluations io d (id_of u) (setHours0 (tz_offset io) (date_now io)) = None
       \<and> status resp \<noteq> 429 \<and> ReqJson \<in> set tr
       \<and> (\<forall>payload obj row d1. json_body req = Inr payload \<and> build_insert u payload = Inr obj
              \<and> insert_evaluation io d obj = (Inr row, d1)
            \<longrightarrow> resp = json_response 201 (SuccessBody row) \<and> d' = d1)
       \<and> (\<forall>io1 d0 uid since c. count_evaluations io1 d0 uid since = Some c \<longrightarrow> 0 \<le> c)
       \<and> (\<forall>io1 d0 uid since.
              count_evaluations io1 d0 uid since = None \<longleftrightarrow> count_read_error io1 \<noteq> None)"
proof -
  have n: "count_evaluations io d (id_of u) (setHours0 (tz_offset io) (date_now io)) = None"
    using assms(8) by (simp add: count_evaluations_def)
  then have "\<not> limit_reached
      (count_evaluations io d (id_of u) (setHours0 (tz_offset io) (date_now io))) config"
    by (simp add: limit_reached_def)
  from serve_pass [OF assms(1-7) this] assms(9)
  have p: "(case persist io d u req
                  ([GetUser (replace_first ''Bearer '' [] h), SelectConfig (id_of u)]
                   @ (if run_policy config = ''sampled'' then [MathRandom] else [])
                   @ [NewDate, CountEvaluations (id_of u) (setHours0 (tz_offset io) (date_now io))]) of
              (Inl error, d', tr) \<Rightarrow> (catch_response error, d', tr)
            | (Inr resp, d', tr) \<Rightarrow> (resp, d', tr)) = (resp, d', tr)"
    by simp
  from status_persist [OF p] have a: "status resp \<noteq> 429" "ReqJson \<in> set tr" by auto
  from serve_persist_cases [OF p]
  have b: "\<forall>payload obj row d1. json_body req = Inr payload \<and> build_insert u payload = Inr obj
                  \<and> insert_evaluation io d obj = (Inr row, d1)
                \<longrightarrow> resp = json_response 201 (SuccessBody row) \<and> d' = d1"
    by (elim disjE exE conjE) simp_all
  have c: "\<forall>io1 d0 uid since c. count_evaluations io1 d0 uid since = Some c \<longrightarrow> 0 \<le> c"
    by (auto simp: count_evaluations_def split: option.splits)
  have e: "\<forall>io1 d0 uid since.
              count_evaluations io1 d0 uid since = None \<longleftrightarrow> count_read_error io1 \<noteq> None"
    by (auto simp: count_evaluations_def split: option.splits)
  from n a b c e show ?thesis by blast
qed

text \<open>The count read times out for a user who is at the limit: the call is accepted.\<close>

theorem count_failure_lets_the_call_through_witness:
  "count_read_error (io0\<lparr>count_read_error := Some (PgError ''statement timeout'')\<rparr>)
      = Some (PgError ''statement timeout'')
   \<and> shouldProcess (random (io0\<lparr>count_read_error := Some (PgError ''statement timeout'')\<rparr>))
        (config0 ''sampled'' 100 1)
   \<and> fst (serve (io0\<lparr>count_read_error := Some (PgError ''statement timeout'')\<rparr>)
        (db0 (config0 ''sampled'' 100 1) [row0 ''e1'' 259200000]) (req0 (Inr payload0)))
      = json_response 201 (SuccessBody (row0 ''e9'' 259205001))
   \<and> ReqJson \<in> set (snd (snd (serve (io0\<lparr>count_read_error := Some (PgError ''statement timeout'')\<rparr>)
        (db0 (config0 ''sampled'' 100 1) [row0 ''e1'' 259200000]) (req0 (Inr payload0)))))
   \<and> count_evaluations io0 (db0 (config0 ''sampled'' 100 1) [row0 ''e1'' 259200000]) ''u1'' 0 = Some 1"
proof -
  let ?io = "io0\<lparr>count_read_error := Some (PgError ''statement timeout'')\<rparr>"
  let ?c = "config0 ''sampled'' 100 1"
  let ?d = "db0 ?c [row0 ''e1'' 259200000]"
  let ?req = "req0 (Inr payload0)"
  have io: "getUser ?io = idp" "config_read_error ?io = None"
    "count_read_error ?io = Some (PgError ''statement timeout'')"
    "gen_random_uuid ?io \<notin> set (map eval_id (evaluations ?d))" "insert_io_error ?io = None"
    "gen_random_uuid ?io = ''e9''" "db_now ?io = 259205001"
    by (simp_all add: io0_def db0_def row0_def)
  have g: "run_policy ?c = ''sampled'' \<longrightarrow> shouldProcess (random ?io) ?c"
    and g': "shouldProcess (random ?io) ?c"
    by (simp_all add: shouldProcess_def io0_def config0_def)
  obtain r d' t where s: "serve ?io ?d ?req = (r, d', t)" by (cases "serve ?io ?d ?req") auto
  have k: "count_evaluations io0 ?d ''u1'' 0 = Some 1"
    by (simp add: store_defs fixture_defs)
  from count_failure_lets_the_call_through
    [OF req0_simps(1,2) _ idp_tok1 [OF io(1)] config_found0 [OF io(2)] g io(3) s]
    insert0 stored0 [OF io(4,5)] io(6,7)
  have "r = json_response 201 (SuccessBody (row0 ''e9'' 259205001))" "ReqJson \<in> set t"
    by simp_all
  with s io(3) g' k show ?thesis by simp
qed

text \<open>The count read fails for a user with one row today and a limit of 1; the handler answers 201 and the store holds a second row.\<close>

theorem count_failure_counterexample:
  "count_evaluations (io0\<lparr>count_read_error := Some (PgError ''statement timeout'')\<rparr>)
      (db0 (config0 ''sampled'' 100 1) [row0 ''e1'' 259200000]) ''u1''
      (setHours0 (tz_offset io0) (date_now io0)) = None
   \<and> length (matching_rows [row0 ''e1'' 259200000] ''u1'' (setHours0 (tz_offset io0) (date_now io0)))
       = 1
   \<and> max_eval_per_day (config0 ''sampled'' 100 1) = 1
   \<and> fst (serve (io0\<lparr>count_read_error := Some (PgError ''statement timeout'')\<rparr>)
        (db0 (config0 ''sampled'' 100 1) [row0 ''e1'' 259200000]) (req0 (Inr payload0)))
      = json_response 201 (SuccessBody (row0 ''e9'' 259205001))
   \<and> evaluations (fst (snd (serve (io0\<lparr>count_read_error := Some (PgError ''statement timeout'')\<rparr>)
        (db0 (config0 ''sampled'' 100 1) [row0 ''e1'' 259200000]) (req0 (Inr payload0)))))
      = [row0 ''e1'' 259200000, row0 ''e9'' 259205001]"
  by (simp add: serve_count_failed0)
     (simp add: store_defs fixture_defs setHours0_def)

subsection \<open>The responses\<close>

text \<open>
  C7 (as amended). What the handler answers, condition by condition. A preflight request
  gets 200 with no body. Otherwise: an absent or empty \<open>Authorization\<close> header gets 401
  with \<open>{error: "Missing authorization header"}\<close>; a token the identity provider does not
  resolve gets 401 with \<open>{error: "Unauthorized"}\<close>; a user without a configuration gets
  400 with \<open>{error: "No evaluation config found"}\<close>; under the policy \<open>sampled\<close> a
  refused draw gets 200 with \<open>{message: "Evaluation skipped due to sampling"}\<close>; a count
  at or above the limit gets 429 with \<open>{error: "Daily evaluation limit reached"}\<close>; past
  the gates, a body that does not parse or a payload that makes the handler throw gets
  500 with the thrown message, an insert the store refuses gets 500 with the store's
  message, and an insert that returns a row gets 201 with
  \<open>{success: true, evaluation: row}\<close> and that row appended. In every case but the last
  the store is unchanged. These are all the answers there are: the last conjunct lists
  the nine forms, each with the last call the handler made.
\<close>

theorem response_taxonomy:
  assumes "serve io d req = (resp, d', tr)"
  shows "(req_method req = ''OPTIONS'' \<longrightarrow>
            resp = \<lparr>status = 200, headers = corsHeaders, body = None\<rparr> \<and> d' = d)
       \<and> (req_method req \<noteq> ''OPTIONS'' \<and> (authorization req = None \<or> authorization req = Some [])
            \<longrightarrow> resp = json_response 401 (ErrorBody ''Missing authorization header'') \<and> d' = d)
       \<and> (\<forall>h. req_method req \<noteq> ''OPTIONS'' \<and> authorization req = Some h \<and> h \<noteq> []
              \<and> (auth_error (getUser io (replace_first ''Bearer '' [] h)) \<noteq> None
                   \<or> user (getUser io (replace_first ''Bearer '' [] h)) = None)
            \<longrightarrow> resp = json_response 401 (ErrorBody ''Unauthorized'') \<and> d' = d)
       \<and> (\<forall>h u. req_method req \<noteq> ''OPTIONS'' \<and> authorization req = Some h \<and> h \<noteq> []
              \<and> user (getUser io (replace_first ''Bearer '' [] h)) = Some u
              \<and> auth_error (getUser io (replace_first ''Bearer '' [] h)) = None
            \<longrightarrow>
              (select_config_single io d (id_of u) = None
                \<longrightarrow> resp = json_response 400 (ErrorBody ''No evaluation config found'') \<and> d' = d)
            \<and> (\<forall>config. select_config_single io d (id_of u) = Some config \<longrightarrow>
                  (run_policy config = ''sampled'' \<and> \<not> shouldProcess (random io) config
                    \<longrightarrow> resp = json_response 200 (MessageBody ''Evaluation skipped due to sampling'')
                        \<and> d' = d)
                \<and> ((run_policy config = ''sampled'' \<longrightarrow> shouldProcess (random io) config)
                     \<and> limit_reached
                          (count_evaluations io d (id_of u) (setHours0 (tz_offset io) (date_now io)))
                          config
                    \<longrightarrow> resp = json_response 429 (ErrorBody ''Daily evaluation limit reached'')
                        \<and> d' = d)
                \<and> ((run_policy config = ''sampled'' \<longrightarrow> shouldProcess (random io) config)
                     \<and> \<not> limit_reached
                          (count_evaluations io d (id_of u) (setHours0 (tz_offset io) (date_now io)))
                          config
                    \<longrightarrow>
                      (\<forall>msg. json_body req = Inl msg
                         \<longrightarrow> resp = json_response 500 (ErrorBody msg) \<and> d' = d)
                    \<and> (\<forall>p e. json_body req = Inr p \<and> build_insert u p = Inl e
                         \<longrightarrow> resp = catch_response e \<and> status resp = 500
                             \<and> (\<exists>msg. body resp = Some (ErrorBody msg)) \<and> d' = d)
                    \<and> (\<forall>p obj e. json_body req = Inr p \<and> build_insert u p = Inr obj
                            \<and> fst (insert_evaluation io d obj) = Inl e
                         \<longrightarrow> resp = json_response 500 (ErrorBody (message e)) \<and> d' = d)
                    \<and> (\<forall>p obj row. json_body req = Inr p \<and> build_insert u p = Inr obj
                            \<and> fst (insert_evaluation io d obj) = Inr row
                         \<longrightarrow> resp = json_response 201 (SuccessBody row)
                             \<and> d' = d\<lparr>evaluations := evaluations d @ [row]\<rparr>))))
       \<and> ((req_method req = ''OPTIONS'' \<and> resp = \<lparr>status = 200, headers = corsHeaders, body = None\<rparr>
              \<and> d' = d \<and> tr = [])
          \<or> (resp = json_response 401 (ErrorBody ''Missing authorization header'') \<and> d' = d \<and> tr = [])
          \<or> (\<exists>tok. resp = json_response 401 (ErrorBody ''Unauthorized'') \<and> d' = d \<and> tr = [GetUser tok])
          \<or> (\<exists>uid. resp = json_response 400 (ErrorBody ''No evaluation config found'') \<and> d' = d
                 \<and> last tr = SelectConfig uid)
          \<or> (resp = json_response 200 (MessageBody ''Evaluation skipped due to sampling'')
                 \<and> d' = d \<and> last tr = MathRandom)
          \<or> (\<exists>uid since. resp = json_response 429 (ErrorBody ''Daily evaluation limit reached'')
                 \<and> d' = d \<and> last tr = CountEvaluations uid since)
          \<or> (\<exists>obj row. resp = json_response 201 (SuccessBody row)
                 \<and> d' = d\<lparr>evaluations := evaluations d @ [row]\<rparr>
                 \<and> last tr = InsertEvaluation obj)
          \<or> (\<exists>obj e. resp = json_response 500 (ErrorBody (message e)) \<and> d' = d
                 \<and> last tr = InsertEvaluation obj)
          \<or> (\<exists>msg. resp = json_response 500 (ErrorBody msg) \<and> d' = d \<and> last tr = ReqJson))"
proof (intro conjI impI allI)
  assume "req_method req = ''OPTIONS''"
  from serve_options [OF this, of io d] assms
  show "resp = \<lparr>status = 200, headers = corsHeaders, body = None\<rparr>" "d' = d" by simp_all
next
  assume "req_method req \<noteq> ''OPTIONS'' \<and> (authorization req = None \<or> authorization req = Some [])"
  then have a: "req_method req \<noteq> ''OPTIONS''" "authorization req = None \<or> authorization req = Some []"
    by simp_all
  from serve_missing_header [OF a, of io d] assms
  show "resp = json_response 401 (ErrorBody ''Missing authorization header'')" "d' = d" by simp_all
next
  fix h
  assume "req_method req \<noteq> ''OPTIONS'' \<and> authorization req = Some h \<and> h \<noteq> []
              \<and> (auth_error (getUser io (replace_first ''Bearer '' [] h)) \<noteq> None
                   \<or> user (getUser io (replace_first ''Bearer '' [] h)) = None)"
  then have a: "req_method req \<noteq> ''OPTIONS''" "authorization req = Some h" "h \<noteq> []"
    "auth_error (getUser io (replace_first ''Bearer '' [] h)) \<noteq> None
       \<or> user (getUser io (replace_first ''Bearer '' [] h)) = None"
    by simp_all
  from serve_unauthorized [OF a, of d] assms
  show "resp = json_response 401 (ErrorBody ''Unauthorized'')" "d' = d" by simp_all
next
  fix h u
  assume "req_method req \<noteq> ''OPTIONS'' \<and> authorization req = Some h \<and> h \<noteq> []
              \<and> user (getUser io (replace_first ''Bearer '' [] h)) = Some u
              \<and> auth_error (getUser io (replace_first ''Bearer '' [] h)) = None"
  then have a: "req_method req \<noteq> ''OPTIONS''" "authorization req = Some h" "h \<noteq> []"
    "user (getUser io (replace_first ''Bearer '' [] h)) = Some u"
    "auth_error (getUser io (replace_first ''Bearer '' [] h)) = None"
    by simp_all
  {
    assume "select_config_single io d (id_of u) = None"
    from serve_no_config [OF a this] assms
    show "resp = json_response 400 (ErrorBody ''No evaluation config found'')" "d' = d" by simp_all
  }
  fix config
  assume c: "select_config_single io d (id_of u) = Some config"
  {
    assume "run_policy config = ''sampled'' \<and> \<not> shouldProcess (random io) config"
    then have "run_policy config = ''sampled''" "\<not> shouldProcess (random io) config" by simp_all
    from serve_skip [OF a c this] assms
    show "resp = json_response 200 (MessageBody ''Evaluation skipped due to sampling'')" "d' = d"
      by simp_all
  }
  {
    assume "(run_policy config = ''sampled'' \<longrightarrow> shouldProcess (random io) config)
         \<and> limit_reached
              (count_evaluations io d (id_of u) (setHours0 (tz_offset io) (date_now io))) config"
    then have "run_policy config = ''sampled'' \<longrightarrow> shouldProcess (random io) config"
      "limit_reached
              (count_evaluations io d (id_of u) (setHours0 (tz_offset io) (date_now io))) config"
      by simp_all
    from serve_limit [OF a c this] assms
    show "resp = json_response 429 (ErrorBody ''Daily evaluation limit reached'')" "d' = d"
      by simp_all
  }
  assume "(run_policy config = ''sampled'' \<longrightarrow> shouldProcess (random io) config)
         \<and> \<not> limit_reached
              (count_evaluations io d (id_of u) (setHours0 (tz_offset io) (date_now io))) config"
  then have "run_policy config = ''sampled'' \<longrightarrow> shouldProcess (random io) config"
    "\<not> limit_reached
            (count_evaluations io d (id_of u) (setHours0 (tz_offset io) (date_now io))) config"
    by simp_all
  note pass = serve_pass [OF a c this]
  {
    fix msg
    assume "json_body req = Inl msg"
    from pass persist_unparsable [OF this] assms
    show "resp = json_response 500 (ErrorBody msg)" "d' = d" by (simp_all add: catch_response_def)
  }
  {
    fix p e
    assume "json_body req = Inr p \<and> build_insert u p = Inl e"
    then have "json_body req = Inr p" "build_insert u p = Inl e" by simp_all
    from pass persist_thrown [OF this] assms
    have r: "resp = catch_response e" and "d' = d" by simp_all
    then show "resp = catch_response e" "d' = d" by simp_all
    from r show "status resp = 500" "\<exists>msg. body resp = Some (ErrorBody msg)"
      by (simp_all add: catch_response_def)
  }
  {
    fix p obj e
    assume "json_body req = Inr p \<and> build_insert u p = Inr obj
        \<and> fst (insert_evaluation io d obj) = Inl e"
    then have "json_body req = Inr p" "build_insert u p = Inr obj"
      "fst (insert_evaluation io d obj) = Inl e" by simp_all
    from pass persist_refused [OF this] assms
    show "resp = json_response 500 (ErrorBody (message e))" "d' = d" by simp_all
  }
  fix p obj row
  assume "json_body req = Inr p \<and> build_insert u p = Inr obj
        \<and> fst (insert_evaluation io d obj) = Inr row"
  then have b: "json_body req = Inr p" "build_insert u p = Inr obj"
    and i: "fst (insert_evaluation io d obj) = Inr row" by simp_all
  from i obtain d1 where i1: "insert_evaluation io d obj = (Inr row, d1)"
    by (cases "insert_evaluation io d obj") auto
  from insert_evaluation_Inr [OF i1] have d1: "d1 = d\<lparr>evaluations := evaluations d @ [row]\<rparr>"
    by simp
  from pass persist_ok [OF b i1] assms d1
  show "resp = json_response 201 (SuccessBody row)"
    "d' = d\<lparr>evaluations := evaluations d @ [row]\<rparr>" by simp_all
next
  from response_shapes [OF assms]
  show "(req_method req = ''OPTIONS'' \<and> resp = \<lparr>status = 200, headers = corsHeaders, body = None\<rparr>
              \<and> d' = d \<and> tr = [])
          \<or> (resp = json_response 401 (ErrorBody ''Missing authorization header'') \<and> d' = d \<and> tr = [])
          \<or> (\<exists>tok. resp = json_response 401 (ErrorBody ''Unauthorized'') \<and> d' = d \<and> tr = [GetUser tok])
          \<or> (\<exists>uid. resp = json_response 400 (ErrorBody ''No evaluation config found'') \<and> d' = d
                 \<and> last tr = SelectConfig uid)
          \<or> (resp = json_response 200 (MessageBody ''Evaluation skipped due to sampling'')
                 \<and> d' = d \<and> last tr = MathRandom)
          \<or> (\<exists>uid since. resp = json_response 429 (ErrorBody ''Daily evaluation limit reached'')
                 \<and> d' = d \<and> last tr = CountEvaluations uid since)
          \<or> (\<exists>obj row. resp = json_response 201 (SuccessBody row)
                 \<and> d' = d\<lparr>evaluations := evaluations d @ [row]\<rparr>
                 \<and> last tr = InsertEvaluation obj)
          \<or> (\<exists>obj e. resp = json_response 500 (ErrorBody (message e)) \<and> d' = d
                 \<and> last tr = InsertEvaluation obj)
          \<or> (\<exists>msg. resp = json_response 500 (ErrorBody msg) \<and> d' = d \<and> last tr = ReqJson)" .
qed

text \<open>One invocation for each condition, from the preflight request to the accepted call.\<close>

theorem response_taxonomy_witness:
  "fst (serve io0 (db0 (config0 ''always'' 100 2) [row0 ''e1'' 259200000])
        \<lparr>req_method = ''OPTIONS'', authorization = None, json_body = Inl []\<rparr>)
     = \<lparr>status = 200, headers = corsHeaders, body = None\<rparr>
   \<and> fst (serve io0 (db0 (config0 ''always'' 100 2) [row0 ''e1'' 259200000])
        \<lparr>req_method = ''POST'', authorization = None, json_body = Inr payload0\<rparr>)
     = json_response 401 (ErrorBody ''Missing authorization header'')
   \<and> fst (serve io0 (db0 (config0 ''always'' 100 2) [row0 ''e1'' 259200000])
        \<lparr>req_method = ''POST'', authorization = Some [], json_body = Inr payload0\<rparr>)
     = json_response 401 (ErrorBody ''Missing authorization header'')
   \<and> fst (serve io0 (db0 (config0 ''always'' 100 2) [row0 ''e1'' 259200000])
        \<lparr>req_method = ''POST'', authorization = Some ''Bearer stale'', json_body = Inr payload0\<rparr>)
     = json_response 401 (ErrorBody ''Unauthorized'')
   \<and> fst (serve io0 \<lparr>eval_configs = [], evaluations = []\<rparr> (req0 (Inr payload0)))
     = json_response 400 (ErrorBody ''No evaluation config found'')
   \<and> fst (serve io0 (db0 (config0 ''sampled'' 50 2) []) (req0 (Inr payload0)))
     = json_response 200 (MessageBody ''Evaluation skipped due to sampling'')
   \<and> fst (serve io0 (db0 (config0 ''always'' 100 1) [row0 ''e1'' 259200000]) (req0 (Inr payload0)))
     = json_response 429 (ErrorBody ''Daily evaluation limit reached'')
   \<and> fst (serve io0 (db0 (config0 ''always'' 100 2) [row0 ''e1'' 259200000])
        (req0 (Inl ''Unexpected end of JSON input'')))
     = json_response 500 (ErrorBody ''Unexpected end of JSON input'')
   \<and> status (fst (serve io0 (db0 (config0 ''always'' 100 2) [row0 ''e1'' 259200000])
        (req0 (Inr JNull)))) = 500
   \<and> fst (serve (io0\<lparr>insert_io_error := Some (PgError ''connection reset'')\<rparr>)
        (db0 (config0 ''always'' 100 2) [row0 ''e1'' 259200000]) (req0 (Inr payload0)))
     = json_response 500 (ErrorBody ''connection reset'')
   \<and> fst (serve io0 (db0 (config0 ''always'' 100 2) [row0 ''e1'' 259200000]) (req0 (Inr payload0)))
     = json_response 201 (SuccessBody (row0 ''e9'' 259205001))
   \<and> evaluations (fst (snd (serve io0 (db0 (config0 ''always'' 100 2) [row0 ''e1'' 259200000])
        (req0 (Inr payload0)))))
     = [row0 ''e1'' 259200000, row0 ''e9'' 259205001]"
proof -
  let ?d = "db0 (config0 ''always'' 100 2) [row0 ''e1'' 259200000]"
  let ?down = "io0\<lparr>insert_io_error := Some (PgError ''connection reset'')\<rparr>"
  have p: "serve io d req
      = (fst (serve io d req), fst (snd (serve io d req)), snd (snd (serve io d req)))"
    for io d req by simp
  note t = response_taxonomy [OF p]
  have a: "fst (serve io0 ?d \<lparr>req_method = ''OPTIONS'', authorization = None, json_body = Inl []\<rparr>)
     = \<lparr>status = 200, headers = corsHeaders, body = None\<rparr>"
    using t [where io = io0 and d = ?d and req = "\<lparr>req_method = ''OPTIONS'', authorization = None, json_body = Inl []\<rparr>"]
    by simp
  have b: "fst (serve io0 ?d \<lparr>req_method = ''POST'', authorization = None, json_body = Inr payload0\<rparr>)
     = json_response 401 (ErrorBody ''Missing authorization header'')"
    using t [where io = io0 and d = ?d and req = "\<lparr>req_method = ''POST'', authorization = None, json_body = Inr payload0\<rparr>"]
    by simp
  have c: "fst (serve io0 ?d \<lparr>req_method = ''POST'', authorization = Some [], json_body = Inr payload0\<rparr>)
     = json_response 401 (ErrorBody ''Missing authorization header'')"
    using t [where io = io0 and d = ?d and req = "\<lparr>req_method = ''POST'', authorization = Some [], json_body = Inr payload0\<rparr>"]
    by simp
  have e: "fst (serve io0 ?d
        \<lparr>req_method = ''POST'', authorization = Some ''Bearer stale'', json_body = Inr payload0\<rparr>)
     = json_response 401 (ErrorBody ''Unauthorized'')"
    using t [where io = io0 and d = ?d and req = "\<lparr>req_method = ''POST'', authorization = Some ''Bearer stale'', json_body = Inr payload0\<rparr>"]
    by (simp add: io0_def idp_def)
  have f: "fst (serve io0 \<lparr>eval_configs = [], evaluations = []\<rparr> (req0 (Inr payload0)))
     = json_response 400 (ErrorBody ''No evaluation config found'')"
    using t [where io = io0 and d = "\<lparr>eval_configs = [], evaluations = []\<rparr>" and req = "req0 (Inr payload0)"]
    by (simp add: io0_def idp_def select_config_single_def)
  have g: "fst (serve io0 (db0 (config0 ''sampled'' 50 2) []) (req0 (Inr payload0)))
     = json_response 200 (MessageBody ''Evaluation skipped due to sampling'')"
    using t [where io = io0 and d = "db0 (config0 ''sampled'' 50 2) []" and req = "req0 (Inr payload0)"]
    by (simp add: path_eval store_defs fixture_defs)
  have h: "fst (serve io0 (db0 (config0 ''always'' 100 1) [row0 ''e1'' 259200000]) (req0 (Inr payload0)))
     = json_response 429 (ErrorBody ''Daily evaluation limit reached'')"
    using t [where io = io0 and d = "db0 (config0 ''always'' 100 1) [row0 ''e1'' 259200000]" and req = "req0 (Inr payload0)"]
    by (simp add: path_eval store_defs fixture_defs)
  have i: "fst (serve io0 ?d (req0 (Inl ''Unexpected end of JSON input'')))
     = json_response 500 (ErrorBody ''Unexpected end of JSON input'')"
    using t [where io = io0 and d = ?d and req = "req0 (Inl ''Unexpected end of JSON input'')"]
    by (simp add: path_eval store_defs fixture_defs)
  have j: "status (fst (serve io0 ?d (req0 (Inr JNull)))) = 500"
    using t [where io = io0 and d = ?d and req = "req0 (Inr JNull)"]
    by (simp add: path_eval store_defs fixture_defs)
  have k: "fst (serve ?down ?d (req0 (Inr payload0)))
     = json_response 500 (ErrorBody ''connection reset'')"
    using t [where io = ?down and d = ?d and req = "req0 (Inr payload0)"]
    by (simp add: path_eval store_defs fixture_defs)
  have l: "fst (serve io0 ?d (req0 (Inr payload0)))
     = json_response 201 (SuccessBody (row0 ''e9'' 259205001))
     \<and> evaluations (fst (snd (serve io0 ?d (req0 (Inr payload0)))))
        = [row0 ''e1'' 259200000, row0 ''e9'' 259205001]"
    using t [where io = io0 and d = ?d and req = "req0 (Inr payload0)"]
    by (simp add: path_eval store_defs fixture_defs)
  from a b c e f g h i j k l show ?thesis by simp
qed

text \<open>The bodies are not the ones the claim lists: the messages differ.\<close>

theorem response_taxonomy_counterexample:
  "fst (serve io0 (db0 (config0 ''sampled'' 50 2) []) (req0 (Inl ''Unexpected end of JSON input'')))
      = json_response 200 (MessageBody ''Evaluation skipped due to sampling'')
   \<and> body (fst (serve io0 (db0 (config0 ''sampled'' 50 2) [])
        (req0 (Inl ''Unexpected end of JSON input'')))) \<noteq> Some (MessageBody ''skipped'')
   \<and> status (fst (serve io0 (db0 (config0 ''always'' 100 1) [row0 ''e1'' 259200000])
        (req0 (Inl ''Unexpected end of JSON input'')))) = 429
   \<and> body (fst (serve io0 (db0 (config0 ''always'' 100 1) [row0 ''e1'' 259200000])
        (req0 (Inl ''Unexpected end of JSON input'')))) \<noteq> Some (ErrorBody ''quota exceeded'')
   \<and> status (fst (serve io0 \<lparr>eval_configs = [], evaluations = []\<rparr> (req0 (Inr payload0)))) = 400
   \<and> body (fst (serve io0 \<lparr>eval_configs = [], evaluations = []\<rparr> (req0 (Inr payload0))))
       \<noteq> Some (ErrorBody ''no config'')
   \<and> status (fst (serve io0 \<lparr>eval_configs = [], evaluations = []\<rparr>
        \<lparr>req_method = ''POST'', authorization = Some ''Bearer stale'', json_body = Inr payload0\<rparr>)) = 401
   \<and> body (fst (serve io0 \<lparr>eval_configs = [], evaluations = []\<rparr>
        \<lparr>req_method = ''POST'', authorization = Some ''Bearer stale'', json_body = Inr payload0\<rparr>))
       \<noteq> Some (ErrorBody ''unauthorized'')"
  by (simp add: serve_skipped0 serve_limit0 serve_no_config0 serve_unauthorized0)

subsection \<open>The same payload twice\<close>

text \<open>
  C8. No idempotence. The same request is served twice, first on the store \<open>d\<close>, then on
  the store \<open>d1\<close> the first call returned. Both times the token resolves to the same user,
  the configuration has the policy \<open>always\<close>, the limit is not reached, the store takes
  the insert (the request does not fail and the generated key is new), and the payload
  is one the store accepts. Then both calls answer 201, the second row is the first with
  a new \<open>id\<close> and \<open>created_at\<close>, both rows are in the final store, and they differ. Nothing
  is assumed about \<open>interaction_id\<close>: the store may already hold rows with the same one.
\<close>

theorem same_payload_twice:
  assumes "req_method req \<noteq> ''OPTIONS''"
    and "authorization req = Some h" and "h \<noteq> []"
    and "user (getUser io1 (replace_first ''Bearer '' [] h)) = Some u"
    and "auth_error (getUser io1 (replace_first ''Bearer '' [] h)) = None"
    and "user (getUser io2 (replace_first ''Bearer '' [] h)) = Some u"
    and "auth_error (getUser io2 (replace_first ''Bearer '' [] h)) = None"
    and "run_policy config = ''always''"
    and "json_body req = Inr payload" and "build_insert u payload = Inr obj"
    and "serve io1 d req = (resp1, d1, tr1)"
    and "serve io2 d1 req = (resp2, d2, tr2)"
    and "select_config_single io1 d (id_of u) = Some config"
    and "select_config_single io2 d1 (id_of u) = Some config"
    and "\<not> limit_reached
           (count_evaluations io1 d (id_of u) (setHours0 (tz_offset io1) (date_now io1))) config"
    and "\<not> limit_reached
           (count_evaluations io2 d1 (id_of u) (setHours0 (tz_offset io2) (date_now io2))) config"
    and "insert_io_error io1 = None" and "insert_io_error io2 = None"
    and "new_row io1 obj = Inr row1"
    and "gen_random_uuid io1 \<notin> set (map eval_id (evaluations d))"
    and "gen_random_uuid io2 \<notin> set (map eval_id (evaluations d1))"
  shows "resp1 = json_response 201 (SuccessBody row1)
       \<and> resp2 = json_response 201
            (SuccessBody (row1\<lparr>eval_id := gen_random_uuid io2, created_at := db_now io2\<rparr>))
       \<and> evaluations d2
           = evaluations d
             @ [row1, row1\<lparr>eval_id := gen_random_uuid io2, created_at := db_now io2\<rparr>]
       \<and> eval_id row1 \<noteq> gen_random_uuid io2
       \<and> row1 \<noteq> row1\<lparr>eval_id := gen_random_uuid io2, created_at := db_now io2\<rparr>
       \<and> InsertEvaluation obj \<in> set tr1 \<and> InsertEvaluation obj \<in> set tr2"
proof -
  let ?row2 = "row1\<lparr>eval_id := gen_random_uuid io2, created_at := db_now io2\<rparr>"
  from assms(8) have gate1: "run_policy config = ''sampled'' \<longrightarrow> shouldProcess (random io1) config"
    and gate2: "run_policy config = ''sampled'' \<longrightarrow> shouldProcess (random io2) config"
    by simp_all
  from new_row_Inr [OF assms(19)] have id1: "eval_id row1 = gen_random_uuid io1" by simp
  with assms(20) have "eval_id row1 \<notin> set (map eval_id (evaluations d))" by simp
  note i1 = insert_evaluation_ok [OF assms(17,19) this]
  from serve_pass [OF assms(1-3) assms(4,5) assms(13) gate1 assms(15)]
    persist_ok [OF assms(9,10) i1] assms(11)
  have first: "resp1 = json_response 201 (SuccessBody row1)"
    "d1 = d\<lparr>evaluations := evaluations d @ [row1]\<rparr>" "InsertEvaluation obj \<in> set tr1"
    by auto
  have "eval_id ?row2 \<notin> set (map eval_id (evaluations d1))" using assms(21) by simp
  note i2 = insert_evaluation_ok [OF assms(18) new_row_other_io [OF assms(19)] this]
  from serve_pass [OF assms(1-3) assms(6,7) assms(14) gate2 assms(16)]
    persist_ok [OF assms(9,10) i2] assms(12)
  have second: "resp2 = json_response 201 (SuccessBody ?row2)"
    "d2 = d1\<lparr>evaluations := evaluations d1 @ [?row2]\<rparr>" "InsertEvaluation obj \<in> set tr2"
    by auto
  from assms(21) first(2) have distinct: "eval_id row1 \<noteq> gen_random_uuid io2" by auto
  then have "row1 \<noteq> ?row2"
  proof -
    have "eval_id ?row2 = gen_random_uuid io2" by simp
    with distinct show ?thesis by metis
  qed
  with first second distinct show ?thesis by simp
qed

text \<open>The store already holds a row with \<open>interaction_id\<close> \<open>i1\<close>; the payload with \<open>i1\<close> is accepted twice more.\<close>

theorem same_payload_twice_witness:
  "interaction_id (row0 ''e1'' 259200000) = ''i1''
   \<and> serve io0 (db0 (config0 ''always'' 100 3) [row0 ''e1'' 259200000]) (req0 (Inr payload0))
      = (json_response 201 (SuccessBody (row0 ''e9'' 259205001)),
         db0 (config0 ''always'' 100 3) [row0 ''e1'' 259200000, row0 ''e9'' 259205001],
         snd (snd (serve io0 (db0 (config0 ''always'' 100 3) [row0 ''e1'' 259200000])
                    (req0 (Inr payload0)))))
   \<and> fst (serve (io0\<lparr>gen_random_uuid := ''e10'', db_now := 259205002\<rparr>)
        (db0 (config0 ''always'' 100 3) [row0 ''e1'' 259200000, row0 ''e9'' 259205001])
        (req0 (Inr payload0)))
      = json_response 201 (SuccessBody (row0 ''e10'' 259205002))
   \<and> evaluations (fst (snd (serve (io0\<lparr>gen_random_uuid := ''e10'', db_now := 259205002\<rparr>)
        (db0 (config0 ''always'' 100 3) [row0 ''e1'' 259200000, row0 ''e9'' 259205001])
        (req0 (Inr payload0)))))
      = [row0 ''e1'' 259200000, row0 ''e9'' 259205001, row0 ''e10'' 259205002]
   \<and> row0 ''e9'' 259205001 \<noteq> row0 ''e10'' 259205002"
proof -
  let ?io2 = "io0\<lparr>gen_random_uuid := ''e10'', db_now := 259205002\<rparr>"
  let ?c = "config0 ''always'' 100 3"
  let ?d = "db0 ?c [row0 ''e1'' 259200000]"
  let ?d1 = "db0 ?c [row0 ''e1'' 259200000, row0 ''e9'' 259205001]"
  let ?req = "req0 (Inr payload0)"
  let ?obj = "\<lparr> ins_user_id = ''u1'', ins_interaction_id = Some (JStr ''i1''),
           ins_prompt = Some (JStr ''p''), ins_response = Some (JStr ''r''), ins_score = None,
           ins_latency_ms = Some (JNum 12), ins_flags = Some (JArr []),
           ins_pii_tokens_redacted = Some (JNum 0) \<rparr>"
  have io: "getUser io0 = idp" "getUser ?io2 = idp" "config_read_error io0 = None"
    "config_read_error ?io2 = None" "insert_io_error io0 = None" "insert_io_error ?io2 = None"
    by (simp_all add: io0_def)
  have pol: "run_policy ?c = ''always''" by (simp add: config0_def)
  have q: "\<not> limit_reached
           (count_evaluations io0 ?d (id_of (AuthUser ''u1'')) (setHours0 (tz_offset io0) (date_now io0))) ?c"
    "\<not> limit_reached
           (count_evaluations ?io2 ?d1 (id_of (AuthUser ''u1''))
              (setHours0 (tz_offset ?io2) (date_now ?io2))) ?c"
    by (simp_all add: limit_reached_def count_evaluations_def matching_rows_def setHours0_def
        fixture_defs)
  have nr: "new_row io0 ?obj = Inr (row0 ''e9'' 259205001)"
    by (simp add: new_row_def bind_err_def int4_value_def row0_def io0_def)
  have fresh: "gen_random_uuid io0 \<notin> set (map eval_id (evaluations ?d))"
    "gen_random_uuid ?io2 \<notin> set (map eval_id (evaluations ?d1))"
    by (simp_all add: fixture_defs)
  obtain r1 d1 t1 where s1: "serve io0 ?d ?req = (r1, d1, t1)" by (cases "serve io0 ?d ?req") auto
  from s1 have d1: "d1 = ?d1"
    by (simp add: handler_defs store_defs fixture_defs)
  obtain r2 d2 t2 where s2: "serve ?io2 ?d1 ?req = (r2, d2, t2)" by (cases "serve ?io2 ?d1 ?req") auto
  have rows: "(row0 ''e9'' 259205001)\<lparr>eval_id := gen_random_uuid ?io2, created_at := db_now ?io2\<rparr>
      = row0 ''e10'' 259205002"
    "evaluations ?d = [row0 ''e1'' 259200000]"
    by (simp_all add: row0_def io0_def db0_def)
  from same_payload_twice [OF req0_simps(1,2) _ idp_tok1 [OF io(1)] idp_tok1 [OF io(2)] pol
      req0_simps(3) insert0 s1 s2 [folded d1] config_found0 [OF io(3)]
      config_found0 [OF io(4), of "''always''" 100 3 "[row0 ''e1'' 259200000, row0 ''e9'' 259205001]", folded d1]
      q(1) q(2) [folded d1] io(5,6) nr fresh(1) fresh(2) [folded d1]]
  have "r1 = json_response 201 (SuccessBody (row0 ''e9'' 259205001))"
    "r2 = json_response 201 (SuccessBody (row0 ''e10'' 259205002))"
    "evaluations d2 = [row0 ''e1'' 259200000, row0 ''e9'' 259205001, row0 ''e10'' 259205002]"
    "row0 ''e9'' 259205001 \<noteq> row0 ''e10'' 259205002"
    unfolding rows by simp_all
  with s1 s2 d1 show ?thesis by (simp add: row0_def)
qed

subsection \<open>The body is read last\<close>

text \<open>
  C9. The body is read only after the gates. If the response is 200, 400, 401 or 429, the
  body was not read, the store is unchanged, and the outcome is the same for every body,
  parsable or not. The body is read exactly when the request is not a preflight request,
  the token resolves, the configuration is found, the draw (if any) is accepted and the
  limit is not reached; the read then follows the identity check, the configuration
  read, the draw (if any) and the count, in this order. When the body is read and does
  not parse, the response is 500 with the parser's message, and the store is unchanged.
\<close>

theorem payload_is_read_after_the_gates:
  assumes "serve io d req = (resp, d', tr)"
  shows "(status resp \<in> {200, 400, 401, 429} \<longrightarrow>
            ReqJson \<notin> set tr \<and> d' = d
            \<and> (\<forall>b. serve io d (req\<lparr>json_body := b\<rparr>) = (resp, d', tr)))
       \<and> (ReqJson \<in> set tr \<longleftrightarrow>
            (\<exists>h u config. req_method req \<noteq> ''OPTIONS'' \<and> authorization req = Some h \<and> h \<noteq> []
               \<and> user (getUser io (replace_first ''Bearer '' [] h)) = Some u
               \<and> auth_error (getUser io (replace_first ''Bearer '' [] h)) = None
               \<and> select_config_single io d (id_of u) = Some config
               \<and> (run_policy config = ''sampled'' \<longrightarrow> shouldProcess (random io) config)
               \<and> \<not> limit_reached
                     (count_evaluations io d (id_of u) (setHours0 (tz_offset io) (date_now io)))
                     config))
       \<and> (ReqJson \<in> set tr \<longrightarrow>
            (\<exists>tok uid since rest.
                tr = [GetUser tok, SelectConfig uid, NewDate, CountEvaluations uid since, ReqJson] @ rest
              \<or> tr = [GetUser tok, SelectConfig uid, MathRandom, NewDate, CountEvaluations uid since,
                       ReqJson] @ rest))
       \<and> (\<forall>msg. ReqJson \<in> set tr \<and> json_body req = Inl msg \<longrightarrow>
             resp = json_response 500 (ErrorBody msg) \<and> d' = d \<and> last tr = ReqJson)"
proof (intro conjI)
  show "status resp \<in> {200, 400, 401, 429} \<longrightarrow>
            ReqJson \<notin> set tr \<and> d' = d
            \<and> (\<forall>b. serve io d (req\<lparr>json_body := b\<rparr>) = (resp, d', tr))"
  proof
    assume "status resp \<in> {200, 400, 401, 429}"
    with body_read_status [OF assms] have n: "ReqJson \<notin> set tr" by auto
    with body_unread_irrelevant [OF assms n] show "ReqJson \<notin> set tr \<and> d' = d
            \<and> (\<forall>b. serve io d (req\<lparr>json_body := b\<rparr>) = (resp, d', tr))"
      by simp
  qed
  show "ReqJson \<in> set tr \<longleftrightarrow>
            (\<exists>h u config. req_method req \<noteq> ''OPTIONS'' \<and> authorization req = Some h \<and> h \<noteq> []
               \<and> user (getUser io (replace_first ''Bearer '' [] h)) = Some u
               \<and> auth_error (getUser io (replace_first ''Bearer '' [] h)) = None
               \<and> select_config_single io d (id_of u) = Some config
               \<and> (run_policy config = ''sampled'' \<longrightarrow> shouldProcess (random io) config)
               \<and> \<not> limit_reached
                     (count_evaluations io d (id_of u) (setHours0 (tz_offset io) (date_now io)))
                     config)"
    by (rule body_read_iff_gates [OF assms])
  show "ReqJson \<in> set tr \<longrightarrow>
            (\<exists>tok uid since rest.
                tr = [GetUser tok, SelectConfig uid, NewDate, CountEvaluations uid since, ReqJson] @ rest
              \<or> tr = [GetUser tok, SelectConfig uid, MathRandom, NewDate, CountEvaluations uid since,
                       ReqJson] @ rest)"
  proof
    assume r: "ReqJson \<in> set tr"
    from iffD1 [OF body_read_trace [OF assms] r]
    obtain h u and config :: eval_config and rest where
      "tr = [GetUser (replace_first ''Bearer '' [] h), SelectConfig (id_of u)]
               @ (if run_policy config = ''sampled'' then [MathRandom] else [])
               @ [NewDate, CountEvaluations (id_of u) (setHours0 (tz_offset io) (date_now io)), ReqJson]
               @ rest"
      by (elim exE conjE)
    then have "tr = [GetUser (replace_first ''Bearer '' [] h), SelectConfig (id_of u), NewDate,
                     CountEvaluations (id_of u) (setHours0 (tz_offset io) (date_now io)), ReqJson] @ rest
             \<or> tr = [GetUser (replace_first ''Bearer '' [] h), SelectConfig (id_of u), MathRandom, NewDate,
                     CountEvaluations (id_of u) (setHours0 (tz_offset io) (date_now io)), ReqJson] @ rest"
      by (simp split: if_splits)
    then show "\<exists>tok uid since rest.
                tr = [GetUser tok, SelectConfig uid, NewDate, CountEvaluations uid since, ReqJson] @ rest
              \<or> tr = [GetUser tok, SelectConfig uid, MathRandom, NewDate, CountEvaluations uid since,
                       ReqJson] @ rest"
      by blast
  qed
  show "\<forall>msg. ReqJson \<in> set tr \<and> json_body req = Inl msg \<longrightarrow>
             resp = json_response 500 (ErrorBody msg) \<and> d' = d \<and> last tr = ReqJson"
    using unparsable_body [OF assms] by blast
qed

text \<open>An unparsable body is skipped (200), refused at the limit (429) as a good one would be, and answered with 500 once the gates are passed.\<close>

theorem payload_is_read_after_the_gates_witness:
  "status (fst (serve io0 (db0 (config0 ''sampled'' 50 2) [])
      (req0 (Inl ''Unexpected end of JSON input'')))) = 200
   \<and> serve io0 (db0 (config0 ''sampled'' 50 2) []) (req0 (Inr payload0))
      = serve io0 (db0 (config0 ''sampled'' 50 2) []) (req0 (Inl ''Unexpected end of JSON input''))
   \<and> status (fst (serve io0 (db0 (config0 ''always'' 100 1) [row0 ''e1'' 259200000])
      (req0 (Inl ''Unexpected end of JSON input'')))) = 429
   \<and> serve io0 (db0 (config0 ''always'' 100 1) [row0 ''e1'' 259200000]) (req0 (Inr payload0))
      = serve io0 (db0 (config0 ''always'' 100 1) [row0 ''e1'' 259200000])
          (req0 (Inl ''Unexpected end of JSON input''))
   \<and> json_body (req0 (Inl ''Unexpected end of JSON input'')) = Inl ''Unexpected end of JSON input''
   \<and> shouldProcess (random io0) (config0 ''sampled'' 100 2)
   \<and> \<not> limit_reached
         (count_evaluations io0 (db0 (config0 ''sampled'' 100 2) [row0 ''e1'' 259200000]) ''u1''
            (setHours0 (tz_offset io0) (date_now io0)))
         (config0 ''sampled'' 100 2)
   \<and> ReqJson \<in> set (snd (snd (serve io0 (db0 (config0 ''sampled'' 100 2) [row0 ''e1'' 259200000])
        (req0 (Inl ''Unexpected end of JSON input'')))))
   \<and> fst (serve io0 (db0 (config0 ''sampled'' 100 2) [row0 ''e1'' 259200000])
        (req0 (Inl ''Unexpected end of JSON input'')))
      = json_response 500 (ErrorBody ''Unexpected end of JSON input'')
   \<and> fst (snd (serve io0 (db0 (config0 ''sampled'' 100 2) [row0 ''e1'' 259200000])
        (req0 (Inl ''Unexpected end of JSON input''))))
      = db0 (config0 ''sampled'' 100 2) [row0 ''e1'' 259200000]"
proof -
  let ?bad = "req0 (Inl ''Unexpected end of JSON input'')"
  let ?ds = "db0 (config0 ''sampled'' 50 2) []"
  let ?dl = "db0 (config0 ''always'' 100 1) [row0 ''e1'' 259200000]"
  let ?c = "config0 ''sampled'' 100 2"
  let ?dp = "db0 ?c [row0 ''e1'' 259200000]"
  have upd: "?bad\<lparr>json_body := Inr payload0\<rparr> = req0 (Inr payload0)" by (simp add: req0_def)
  obtain rs ds ts where ss: "serve io0 ?ds ?bad = (rs, ds, ts)" by (cases "serve io0 ?ds ?bad") auto
  obtain rl dl tl where sl: "serve io0 ?dl ?bad = (rl, dl, tl)" by (cases "serve io0 ?dl ?bad") auto
  obtain rp dp tp where sp: "serve io0 ?dp ?bad = (rp, dp, tp)" by (cases "serve io0 ?dp ?bad") auto
  from ss serve_skipped0 have sts: "status rs = 200" by auto
  from sl serve_limit0 have stl: "status rl = 429" by auto
  from payload_is_read_after_the_gates [OF ss] sts
  have "serve io0 ?ds (?bad\<lparr>json_body := Inr payload0\<rparr>) = (rs, ds, ts)" by simp
  with ss have one: "serve io0 ?ds (req0 (Inr payload0)) = serve io0 ?ds ?bad" by (simp add: upd)
  from payload_is_read_after_the_gates [OF sl] stl
  have "serve io0 ?dl (?bad\<lparr>json_body := Inr payload0\<rparr>) = (rl, dl, tl)" by simp
  with sl have two: "serve io0 ?dl (req0 (Inr payload0)) = serve io0 ?dl ?bad" by (simp add: upd)
  have io: "getUser io0 = idp" "config_read_error io0 = None" by (simp_all add: io0_def)
  have g: "run_policy ?c = ''sampled'' \<longrightarrow> shouldProcess (random io0) ?c"
    and g': "shouldProcess (random io0) ?c"
    by (simp_all add: shouldProcess_def io0_def config0_def)
  have q: "\<not> limit_reached
       (count_evaluations io0 ?dp (id_of (AuthUser ''u1'')) (setHours0 (tz_offset io0) (date_now io0))) ?c"
    by (simp add: limit_reached_def count_evaluations_def matching_rows_def setHours0_def fixture_defs)
  have "\<exists>h u config. req_method ?bad \<noteq> ''OPTIONS'' \<and> authorization ?bad = Some h \<and> h \<noteq> []
               \<and> user (getUser io0 (replace_first ''Bearer '' [] h)) = Some u
               \<and> auth_error (getUser io0 (replace_first ''Bearer '' [] h)) = None
               \<and> select_config_single io0 ?dp (id_of u) = Some config
               \<and> (run_policy config = ''sampled'' \<longrightarrow> shouldProcess (random io0) config)
               \<and> \<not> limit_reached
                     (count_evaluations io0 ?dp (id_of u) (setHours0 (tz_offset io0) (date_now io0)))
                     config"
    using req0_simps(1,2) idp_tok1 [OF io(1)] config_found0 [OF io(2)] g q by blast
  with payload_is_read_after_the_gates [OF sp] have r: "ReqJson \<in> set tp" by simp
  with payload_is_read_after_the_gates [OF sp] req0_simps(3)
  have three: "rp = json_response 500 (ErrorBody ''Unexpected end of JSON input'')" "dp = ?dp"
    by simp_all
  from one two three r sts stl ss sl sp g' q show ?thesis by simp
qed

subsection \<open>A failed configuration read\<close>

text \<open>
  C10. For an authorised call whose configuration read fails, the response is 400 with
  the error "No evaluation config found", the store is unchanged and the handler stops
  after the configuration read; the response is the one given when the read succeeds on
  a store that holds no configuration for the user.
\<close>

theorem config_error_is_no_config:
  assumes "req_method req \<noteq> ''OPTIONS''"
    and "authorization req = Some h" and "h \<noteq> []"
    and "user (getUser io (replace_first ''Bearer '' [] h)) = Some u"
    and "auth_error (getUser io (replace_first ''Bearer '' [] h)) = None"
    and "config_read_error io = Some e"
  shows "serve io d req =
           (json_response 400 (ErrorBody ''No evaluation config found''), d,
            [GetUser (replace_first ''Bearer '' [] h), SelectConfig (id_of u)])
       \<and> (\<forall>d0. filter (\<lambda>c. cfg_user_id c = id_of u) (eval_configs d0) = [] \<longrightarrow>
             fst (serve (io\<lparr>config_read_error := None\<rparr>) d0 req) = fst (serve io d req))"
proof -
  have a: "select_config_single io d (id_of u) = None"
    using assms(6) by (simp add: select_config_single_def)
  have b: "select_config_single (io\<lparr>config_read_error := None\<rparr>) d0 (id_of u) = None"
    if "filter (\<lambda>c. cfg_user_id c = id_of u) (eval_configs d0) = []" for d0
    using that by (simp add: select_config_single_def)
  have c: "user (getUser (io\<lparr>config_read_error := None\<rparr>) (replace_first ''Bearer '' [] h)) = Some u"
    "auth_error (getUser (io\<lparr>config_read_error := None\<rparr>) (replace_first ''Bearer '' [] h)) = None"
    using assms(4,5) by simp_all
  show ?thesis
    using serve_no_config [OF assms(1-5) a] serve_no_config [OF assms(1-3) c b]
    by simp
qed

text \<open>The configuration read is refused although the row exists; the answer is the same 400 as on an empty table.\<close>

theorem config_error_is_no_config_witness:
  "config_read_error (io0\<lparr>config_read_error := Some (PgError ''connection refused'')\<rparr>)
     = Some (PgError ''connection refused'')
   \<and> serve (io0\<lparr>config_read_error := Some (PgError ''connection refused'')\<rparr>)
        (db0 (config0 ''always'' 100 2) []) (req0 (Inr payload0))
      = (json_response 400 (ErrorBody ''No evaluation config found''),
         db0 (config0 ''always'' 100 2) [], [GetUser ''tok1'', SelectConfig ''u1''])
   \<and> fst (serve io0 \<lparr>eval_configs = [], evaluations = []\<rparr> (req0 (Inr payload0)))
      = json_response 400 (ErrorBody ''No evaluation config found'')"
proof -
  let ?io = "io0\<lparr>config_read_error := Some (PgError ''connection refused'')\<rparr>"
  have io: "getUser ?io = idp" "config_read_error ?io = Some (PgError ''connection refused'')"
    "?io\<lparr>config_read_error := None\<rparr> = io0"
    by (simp_all add: io0_def)
  have e: "filter (\<lambda>c. cfg_user_id c = id_of (AuthUser ''u1''))
             (eval_configs \<lparr>eval_configs = [], evaluations = []\<rparr>) = []"
    by simp
  from config_error_is_no_config [where req = "req0 (Inr payload0)"
      and d = "db0 (config0 ''always'' 100 2) []", OF req0_simps(1,2) _ idp_tok1 [OF io(1)] io(2)]
    e io(2,3)
  show ?thesis by simp
qed

end
